theory Spec2Isabelle
  imports Complex_Main
begin

section \<open>Python values that the agent handles\<close>

text \<open>
  The agent of \<^verbatim>\<open>agent.py\<close> moves decoded JSON around: the backend reply, the
  conversation messages, the function specs and the dictionary it returns are all
  Python values built from \<^verbatim>\<open>None\<close>, booleans, numbers, strings, lists and
  dictionaries. A dictionary is an association list (keys in insertion order); a
  lookup takes the first entry of a key.
\<close>

datatype json =
    JNull
  | JBool bool
  | JInt int
  | JFloat real
  | JStr string
  | JList "json list"
  | JObj "(string \<times> json) list"

text \<open>
  An exception is kept as its class name and the text \<^verbatim>\<open>str(e)\<close> gives, which is
  all the agent ever reads of it.
\<close>

datatype py_exception = PyException (exc_class: string) (exc_str: string)

text \<open>The name Python prints for the type of a value.\<close>

fun type_name :: "json \<Rightarrow> string" where
  "type_name JNull = ''NoneType''"
| "type_name (JBool _) = ''bool''"
| "type_name (JInt _) = ''int''"
| "type_name (JFloat _) = ''float''"
| "type_name (JStr _) = ''str''"
| "type_name (JList _) = ''list''"
| "type_name (JObj _) = ''dict''"

text \<open>
  Truthiness, as \<^verbatim>\<open>if x\<close> and \<^verbatim>\<open>not x\<close> test it. (A NaN that Python's
  decoder may produce is truthy and behaves like any non-zero float here.)
\<close>

fun truthy :: "json \<Rightarrow> bool" where
  "truthy JNull = False"
| "truthy (JBool b) = b"
| "truthy (JInt i) = (i \<noteq> 0)"
| "truthy (JFloat r) = (r \<noteq> 0)"
| "truthy (JStr s) = (s \<noteq> [])"
| "truthy (JList xs) = (xs \<noteq> [])"
| "truthy (JObj kvs) = (kvs \<noteq> [])"

text \<open>
  \<^verbatim>\<open>x.get(key, default)\<close>: only a dictionary has the method; on anything else the
  attribute lookup raises \<^verbatim>\<open>AttributeError\<close>.
\<close>

fun py_get :: "json \<Rightarrow> string \<Rightarrow> json \<Rightarrow> py_exception + json" where
  "py_get (JObj kvs) k d = Inr (case map_of kvs k of Some v \<Rightarrow> v | None \<Rightarrow> d)"
| "py_get v k d =
     Inl (PyException ''AttributeError''
            ([CHR 0x27] @ type_name v @ [CHR 0x27] @ '' object has no attribute '' @ [CHR 0x27] @ ''get'' @ [CHR 0x27]))"

text \<open>
  \<^verbatim>\<open>x[0]\<close>: the first element of a list or string, \<^verbatim>\<open>IndexError\<close> when it is
  empty, \<^verbatim>\<open>KeyError\<close> on a dictionary (decoded JSON has string keys only, and
  \<^verbatim>\<open>str(KeyError(0))\<close> is \<^verbatim>\<open>0\<close>), \<^verbatim>\<open>TypeError\<close> on the rest.
\<close>

fun py_first :: "json \<Rightarrow> py_exception + json" where
  "py_first (JList []) = Inl (PyException ''IndexError'' ''list index out of range'')"
| "py_first (JList (x # xs)) = Inr x"
| "py_first (JStr []) = Inl (PyException ''IndexError'' ''string index out of range'')"
| "py_first (JStr (c # cs)) = Inr (JStr [c])"
| "py_first (JObj kvs) = Inl (PyException ''KeyError'' ''0'')"
| "py_first v =
     Inl (PyException ''TypeError''
            ([CHR 0x27] @ type_name v @ [CHR 0x27] @ '' object is not subscriptable''))"

text \<open>\<^verbatim>\<open>str(n)\<close> of an integer, as the f-strings format it.\<close>

fun digit_char :: "nat \<Rightarrow> char" where
  "digit_char n = char_of (48 + n)"

fun str_nat :: "nat \<Rightarrow> string" where
  "str_nat n = (if n < 10 then [digit_char n] else str_nat (n div 10) @ [digit_char (n mod 10)])"

definition str_int :: "int \<Rightarrow> string" where
  "str_int i = (if i < 0 then CHR ''-'' # str_nat (nat (- i)) else str_nat (nat i))"

section \<open>Tools and their conversion to function specs\<close>

text \<open>The dataclass \<^verbatim>\<open>MCPTool\<close>.\<close>

record MCPTool =
  name :: string
  description :: string
  input_schema :: "(string \<times> json) list"

text \<open>The dictionary literal that stands in for a missing schema.\<close>

definition default_parameters :: "(string \<times> json) list" where
  "default_parameters =
     [(''type'', JStr ''object''), (''properties'', JObj []), (''required'', JList [])]"

text \<open>The body of the \<^verbatim>\<open>for\<close> loop of \<^verbatim>\<open>_convert_mcp_tools_to_litellm\<close>.\<close>

definition function_def :: "MCPTool \<Rightarrow> json" where
  "function_def tool =
     JObj [(''name'', JStr (name tool)),
           (''description'', JStr (description tool)),
           (''parameters'',
              JObj (if input_schema tool \<noteq> [] then input_schema tool else default_parameters))]"

text \<open>The loop appends one spec per tool to an initially empty list.\<close>

definition convert_mcp_tools_to_litellm :: "MCPTool list \<Rightarrow> json list" where
  "convert_mcp_tools_to_litellm mcp_tools =
     foldl (\<lambda>litellm_functions tool. litellm_functions @ [function_def tool]) [] mcp_tools"

section \<open>The external collaborators\<close>

text \<open>The three fields \<^verbatim>\<open>__init__\<close> stores on the agent.\<close>

record agent =
  mcp_server_url :: string
  litellm_base_url :: string
  litellm_api_key :: string

text \<open>
  Modelled from the spec: the tool objects of the provider's client library, which are
  not part of the repository. \<^verbatim>\<open>list_tools()\<close> gives an ordered sequence of
  \<^verbatim>\<open>{name, description, input_schema}\<close>; the schema attribute may be missing or
  \<^verbatim>\<open>None\<close> (\<open>None\<close> here).
\<close>

record provider_tool =
  provider_name :: string
  provider_description :: string
  inputSchema :: "(string \<times> json) list option"

text \<open>
  Modelled from the spec: the content items of the provider's client library, which are
  not part of the repository. \<^verbatim>\<open>call_tool\<close> gives an ordered sequence of content
  items, and a content item exposes an optional text field; \<open>str_repr\<close> is what
  \<^verbatim>\<open>str(item)\<close> prints.
\<close>

record content_item =
  item_text :: "string option"
  str_repr :: string

text \<open>What the agent reads of an HTTP response: the status and the decoded body
  (\<^verbatim>\<open>response.json()\<close> raises on a body that is not JSON).\<close>

record http_response =
  status_code :: int
  response_json :: "py_exception + json"

text \<open>
  The world outside the agent. Each network operation takes the current state of the
  world \<open>'w\<close> and gives its result, or the exception it raised, with the next state, so
  that the provider and the backend may answer the same request differently at
  different times. \<open>mcp_list_tools\<close> and \<open>mcp_call_tool\<close> stand for a whole provider
  session (connect, initialise, call, close): \<open>Inl e\<close> when any part of it raised \<open>e\<close>.
  \<open>json_loads\<close> is \<^verbatim>\<open>json.loads\<close> on a string, \<open>None\<close> when it raises
  \<^verbatim>\<open>JSONDecodeError\<close>, which it does exactly on a string that is not a JSON document;
  \<open>json_dumps\<close> is \<^verbatim>\<open>json.dumps\<close>.
\<close>

record 'w env =
  mcp_list_tools :: "'w \<Rightarrow> string \<Rightarrow> (py_exception + provider_tool list) \<times> 'w"
  mcp_call_tool :: "'w \<Rightarrow> string \<Rightarrow> json \<Rightarrow> json \<Rightarrow> (py_exception + content_item list) \<times> 'w"
  http_post :: "'w \<Rightarrow> string \<Rightarrow> (string \<times> string) list \<Rightarrow> json \<Rightarrow> (py_exception + http_response) \<times> 'w"
  json_loads :: "string \<Rightarrow> json option"
  json_dumps :: "json \<Rightarrow> string"

section \<open>The agent's methods\<close>

text \<open>\<^verbatim>\<open>_fetch_mcp_tools\<close>: the handler logs and re-raises.\<close>

definition fetch_mcp_tools :: "'w env \<Rightarrow> agent \<Rightarrow> 'w \<Rightarrow> (py_exception + MCPTool list) \<times> 'w" where
  "fetch_mcp_tools env self w =
     (case mcp_list_tools env w (mcp_server_url self) of
        (Inl e, w') \<Rightarrow> (Inl e, w')
      | (Inr tools, w') \<Rightarrow>
          (Inr (foldl (\<lambda>mcp_tools tool. mcp_tools @
                  [\<lparr>name = provider_name tool,
                    description = provider_description tool,
                    input_schema = (case inputSchema tool of
                                      Some d \<Rightarrow> if d \<noteq> [] then d else []
                                    | None \<Rightarrow> [])\<rparr>]) [] tools), w'))"

text \<open>
  \<^verbatim>\<open>_execute_mcp_tool\<close>: everything is inside one \<^verbatim>\<open>try\<close> whose handler turns the
  exception into an \<^verbatim>\<open>error\<close> dictionary, so the method always returns a dictionary.
\<close>

definition execute_mcp_tool :: "'w env \<Rightarrow> agent \<Rightarrow> 'w \<Rightarrow> json \<Rightarrow> json \<Rightarrow> json \<times> 'w" where
  "execute_mcp_tool env self w tool_name arguments =
     (case mcp_call_tool env w (mcp_server_url self) tool_name arguments of
        (Inl e, w') \<Rightarrow> (JObj [(''error'', JStr (''Tool execution failed: '' @ exc_str e))], w')
      | (Inr content, w') \<Rightarrow>
          (case content of
             item # _ \<Rightarrow>
               (JObj [(''result'',
                       JStr (case item_text item of
                               Some t \<Rightarrow> if t \<noteq> [] then t else str_repr item
                             | None \<Rightarrow> str_repr item))], w')
           | [] \<Rightarrow>
               (JObj [(''result'', JStr ''Tool executed successfully but returned no content'')], w')))"

text \<open>\<^verbatim>\<open>_call_litellm\<close>: the handler logs and re-raises.\<close>

definition call_litellm ::
  "'w env \<Rightarrow> agent \<Rightarrow> 'w \<Rightarrow> json list \<Rightarrow> string \<Rightarrow> json list option \<Rightarrow> (py_exception + json) \<times> 'w" where
  "call_litellm env self w msgs model functions =
     (let url = litellm_base_url self @ ''/v1/chat/completions'';
          headers = [(''Authorization'', ''Bearer '' @ litellm_api_key self),
                     (''Content-Type'', ''application/json'')];
          data = JObj ([(''model'', JStr model), (''messages'', JList msgs)] @
                       (case functions of
                          Some fs \<Rightarrow>
                            if fs \<noteq> [] then [(''functions'', JList fs), (''function_call'', JStr ''auto'')]
                            else []
                        | None \<Rightarrow> []))
      in case http_post env w url headers data of
           (Inl e, w') \<Rightarrow> (Inl e, w')
         | (Inr response, w') \<Rightarrow>
             (if status_code response \<noteq> 200
              then (Inl (PyException ''Exception''
                           (''LiteLLM request failed: '' @ str_int (status_code response))), w')
              else (response_json response, w')))"

section \<open>The orchestration loop of \<^verbatim>\<open>process_request\<close>\<close>

text \<open>
  What a run did to the outside, in order: each call of the model client with the
  counter and the conversation it was given, and each tool invocation with the counter
  (already incremented) and the name and arguments it was given.
\<close>

datatype event =
    ModelCalled int "json list"
  | ToolCalled int json json

text \<open>The local variables of the loop, the world, and the trace of the run so far.\<close>

record 'w loop_state =
  messages :: "json list"
  tool_call_count :: int
  world :: 'w
  events :: "event list"

text \<open>
  One pass through the body of the \<^verbatim>\<open>while\<close> loop either reaches the end of the body,
  or returns the success dictionary, or raises.
\<close>

datatype 'w step =
    Continue "'w loop_state"
  | Return json "'w loop_state"
  | Raise py_exception "'w loop_state"

text \<open>
  \<^verbatim>\<open>json.loads(function_args_str)\<close> inside its own \<^verbatim>\<open>try\<close>: only
  \<^verbatim>\<open>JSONDecodeError\<close> is handled there; an argument that is not a string makes
  \<^verbatim>\<open>json.loads\<close> raise \<^verbatim>\<open>TypeError\<close>, which is not.
\<close>

definition loads_function_args :: "'w env \<Rightarrow> json \<Rightarrow> py_exception + json" where
  "loads_function_args env function_args_str =
     (case function_args_str of
        JStr str \<Rightarrow> (case json_loads env str of Some function_args \<Rightarrow> Inr function_args
                                                | None \<Rightarrow> Inr (JObj []))
      | _ \<Rightarrow> Inl (PyException ''TypeError''
                    (''the JSON object must be str, bytes or bytearray, not '' @
                     type_name function_args_str)))"

definition success_dict :: "json \<Rightarrow> int \<Rightarrow> json \<Rightarrow> json" where
  "success_dict response count total_tokens =
     JObj [(''success'', JBool True),
           (''response'', response),
           (''tool_calls_made'', JInt count),
           (''total_tokens'', total_tokens)]"

definition function_message :: "json \<Rightarrow> string \<Rightarrow> json" where
  "function_message function_name content =
     JObj [(''role'', JStr ''function''),
           (''name'', function_name),
           (''content'', JStr content)]"

text \<open>
  The assistant's turn of a reply:
  \<^verbatim>\<open>llm_response.get("choices", [{}])[0].get("message", {})\<close>.
\<close>

definition assistant_message :: "json \<Rightarrow> py_exception + json" where
  "assistant_message llm_response =
     (case py_get llm_response ''choices'' (JList [JObj []]) of
        Inl e \<Rightarrow> Inl e
      | Inr choices \<Rightarrow>
          (case py_first choices of
             Inl e \<Rightarrow> Inl e
           | Inr choice \<Rightarrow> py_get choice ''message'' (JObj [])))"

text \<open>The dictionary built by the \<^verbatim>\<open>return\<close> of the branch without a function call.\<close>

definition final_response :: "json \<Rightarrow> json \<Rightarrow> int \<Rightarrow> py_exception + json" where
  "final_response message llm_response count =
     (case py_get message ''content'' (JStr []) of
        Inl e \<Rightarrow> Inl e
      | Inr response \<Rightarrow>
          (case py_get llm_response ''usage'' (JObj []) of
             Inl e \<Rightarrow> Inl e
           | Inr usage \<Rightarrow>
               (case py_get usage ''total_tokens'' (JInt 0) of
                  Inl e \<Rightarrow> Inl e
                | Inr total_tokens \<Rightarrow> Inr (success_dict response count total_tokens))))"

definition loop_body ::
  "'w env \<Rightarrow> agent \<Rightarrow> string \<Rightarrow> json list \<Rightarrow> 'w loop_state \<Rightarrow> 'w step" where
  "loop_body env self model litellm_functions s =
     (let s1 = s\<lparr>events := events s @ [ModelCalled (tool_call_count s) (messages s)]\<rparr> in
      case call_litellm env self (world s) (messages s) model
             (if litellm_functions \<noteq> [] then Some litellm_functions else None) of
        (Inl e, w) \<Rightarrow> Raise e (s1\<lparr>world := w\<rparr>)
      | (Inr llm_response, w) \<Rightarrow>
     (let s2 = s1\<lparr>world := w\<rparr> in
      case assistant_message llm_response of Inl e \<Rightarrow> Raise e s2 | Inr message \<Rightarrow>
     (let s3 = s2\<lparr>messages := messages s2 @ [message]\<rparr> in
      case py_get message ''function_call'' JNull of Inl e \<Rightarrow> Raise e s3 | Inr function_call \<Rightarrow>
      if \<not> truthy function_call then
        (case final_response message llm_response (tool_call_count s3) of
           Inl e \<Rightarrow> Raise e s3
         | Inr r \<Rightarrow> Return r s3)
      else
     (let s4 = s3\<lparr>tool_call_count := tool_call_count s3 + 1\<rparr> in
      case py_get function_call ''name'' JNull of Inl e \<Rightarrow> Raise e s4 | Inr function_name \<Rightarrow>
     (case py_get function_call ''arguments'' (JStr ''{}'') of Inl e \<Rightarrow> Raise e s4 | Inr function_args_str \<Rightarrow>
     (case loads_function_args env function_args_str of Inl e \<Rightarrow> Raise e s4 | Inr function_args \<Rightarrow>
     (case execute_mcp_tool env self (world s4) function_name function_args of
        (tool_result, w') \<Rightarrow>
          Continue (s4\<lparr>world := w',
                      events := events s4 @ [ToolCalled (tool_call_count s4) function_name function_args],
                      messages := messages s4 @
                                    [function_message function_name (json_dumps env tool_result)]\<rparr>))))))))"

text \<open>The dictionary the outer handler of \<^verbatim>\<open>process_request\<close> returns.\<close>

definition failure_dict :: "py_exception \<Rightarrow> int \<Rightarrow> json" where
  "failure_dict e count =
     JObj [(''success'', JBool False),
           (''error'', JStr (exc_str e)),
           (''tool_calls_made'', JInt count)]"

text \<open>The dictionary returned after the loop.\<close>

definition exhausted_dict :: "int \<Rightarrow> int \<Rightarrow> json \<Rightarrow> json" where
  "exhausted_dict max_tool_calls count partial_response =
     JObj [(''success'', JBool False),
           (''error'', JStr (''Maximum tool calls ('' @ str_int max_tool_calls @ '') reached'')),
           (''tool_calls_made'', JInt count),
           (''partial_response'', partial_response)]"

definition max_tool_calls_reached :: "int \<Rightarrow> 'w loop_state \<Rightarrow> json" where
  "max_tool_calls_reached max_tool_calls s =
     (if messages s \<noteq> [] then
        (case py_get (last (messages s)) ''content'' (JStr []) of
           Inl e \<Rightarrow> failure_dict e (tool_call_count s)
         | Inr partial_response \<Rightarrow> exhausted_dict max_tool_calls (tool_call_count s) partial_response)
      else exhausted_dict max_tool_calls (tool_call_count s) (JStr []))"

text \<open>
  The \<^verbatim>\<open>while\<close> loop with the statement after it, inside the outer \<^verbatim>\<open>try\<close>: an
  exception of the body ends the run with the failure dictionary and the counter as it
  stands at that point.
\<close>

function conversation_loop ::
  "'w env \<Rightarrow> agent \<Rightarrow> string \<Rightarrow> json list \<Rightarrow> int \<Rightarrow> 'w loop_state \<Rightarrow> json \<times> 'w loop_state" where
  "conversation_loop env self model litellm_functions max_tool_calls s =
     (if tool_call_count s < max_tool_calls then
        (case loop_body env self model litellm_functions s of
           Continue s' \<Rightarrow> conversation_loop env self model litellm_functions max_tool_calls s'
         | Return r s' \<Rightarrow> (r, s')
         | Raise e s' \<Rightarrow> (failure_dict e (tool_call_count s'), s'))
      else (max_tool_calls_reached max_tool_calls s, s))"
  by pat_completeness auto
termination
  by (relation "measure (\<lambda>(env, self, model, fns, max_tool_calls, s).
                   nat (max_tool_calls - tool_call_count s))")
     (auto simp: loop_body_def Let_def split: prod.splits sum.splits if_splits)

declare conversation_loop.simps [simp del]

text \<open>
  \<^verbatim>\<open>process_request\<close>. When discovery raises, the loop's variables were never
  assigned: the handler reports 0 calls, and the state returned has no conversation
  and no event.
\<close>

definition process_request ::
  "'w env \<Rightarrow> agent \<Rightarrow> 'w \<Rightarrow> string \<Rightarrow> string \<Rightarrow> int \<Rightarrow> json \<times> 'w loop_state" where
  "process_request env self w request model max_tool_calls =
     (case fetch_mcp_tools env self w of
        (Inl e, w') \<Rightarrow>
          (failure_dict e 0, \<lparr>messages = [], tool_call_count = 0, world = w', events = []\<rparr>)
      | (Inr mcp_tools, w') \<Rightarrow>
          conversation_loop env self model (convert_mcp_tools_to_litellm mcp_tools) max_tool_calls
            \<lparr>messages = [JObj [(''role'', JStr ''user''), (''content'', JStr request)]],
             tool_call_count = 0, world = w', events = []\<rparr>)"

section \<open>Reading a run\<close>

text \<open>The counter values at the tool invocations of a trace, in order.\<close>

fun tool_call_counters :: "event list \<Rightarrow> int list" where
  "tool_call_counters [] = []"
| "tool_call_counters (ToolCalled c n a # es) = c # tool_call_counters es"
| "tool_call_counters (ModelCalled c ms # es) = tool_call_counters es"

text \<open>The counter value an event was recorded with.\<close>

fun event_counter :: "event \<Rightarrow> int" where
  "event_counter (ModelCalled c ms) = c"
| "event_counter (ToolCalled c n a) = c"

text \<open>
  The three shapes of the dictionary \<^verbatim>\<open>process_request\<close> returns: \<^verbatim>\<open>success\<close> true;
  \<^verbatim>\<open>success\<close> false with a \<^verbatim>\<open>partial_response\<close> (the budget ran out); \<^verbatim>\<open>success\<close>
  false without one (the outer handler).
\<close>

datatype outcome = Success | Exhausted | Failed

definition outcome_of :: "json \<Rightarrow> outcome option" where
  "outcome_of r =
     (case r of
        JObj kvs \<Rightarrow>
          (case map_of kvs ''success'' of
             Some (JBool True) \<Rightarrow> Some Success
           | Some (JBool False) \<Rightarrow>
               if map_of kvs ''partial_response'' \<noteq> None then Some Exhausted else Some Failed
           | _ \<Rightarrow> None)
      | _ \<Rightarrow> None)"

text \<open>
  A message is a function-call request when the loop's test
  \<^verbatim>\<open>message.get("function_call")\<close> finds a truthy value in it.
\<close>

definition is_function_call_request :: "json \<Rightarrow> bool" where
  "is_function_call_request message =
     (case py_get message ''function_call'' JNull of
        Inr function_call \<Rightarrow> truthy function_call
      | Inl e \<Rightarrow> False)"

text \<open>
  \<open>r\<close> is the function-result message for the request \<open>m\<close>: role \<^verbatim>\<open>function\<close>, the name
  the request asked for, and a string as content.
\<close>

definition is_function_result_for :: "json \<Rightarrow> json \<Rightarrow> bool" where
  "is_function_result_for m r =
     (case py_get m ''function_call'' JNull of
        Inr function_call \<Rightarrow>
          (case py_get function_call ''name'' JNull of
             Inr function_name \<Rightarrow>
               (case py_get r ''content'' JNull of
                  Inr (JStr content) \<Rightarrow> r = function_message function_name content
                | _ \<Rightarrow> False)
           | Inl e \<Rightarrow> False)
      | Inl e \<Rightarrow> False)"

text \<open>A sequence of messages made of requests, each followed by its one result.\<close>

fun exchanges :: "json list \<Rightarrow> bool" where
  "exchanges [] = True"
| "exchanges [m] = False"
| "exchanges (m # r # rest) =
     (is_function_call_request m \<and> is_function_result_for m r \<and> exchanges rest)"

text \<open>No function-call request of the conversation is left without its result.\<close>

fun no_unanswered_request :: "json list \<Rightarrow> bool" where
  "no_unanswered_request [] = True"
| "no_unanswered_request [m] = (\<not> is_function_call_request m)"
| "no_unanswered_request (m # r # rest) =
     (if is_function_call_request m
      then is_function_result_for m r \<and> no_unanswered_request rest
      else no_unanswered_request (r # rest))"

text \<open>How a run of the loop ended, with what the trace and the counter then say.\<close>

definition ends_failed :: "int \<Rightarrow> json \<Rightarrow> 'w loop_state \<Rightarrow> bool" where
  "ends_failed m r s' \<longleftrightarrow>
     (\<exists>e n. r = failure_dict e (tool_call_count s') \<and> tool_call_counters (events s') = [1..n] \<and>
            0 \<le> n \<and> n < m \<and> (tool_call_count s' = n \<or> tool_call_count s' = n + 1))"

definition ends_success :: "int \<Rightarrow> json \<Rightarrow> 'w loop_state \<Rightarrow> bool" where
  "ends_success m r s' \<longleftrightarrow>
     (\<exists>response total_tokens. r = success_dict response (tool_call_count s') total_tokens \<and>
        tool_call_counters (events s') = [1..tool_call_count s'] \<and> tool_call_count s' < m)"

definition ends_exhausted :: "int \<Rightarrow> json \<Rightarrow> 'w loop_state \<Rightarrow> bool" where
  "ends_exhausted m r s' \<longleftrightarrow>
     (\<exists>p. r = exhausted_dict m (tool_call_count s') p \<and>
        tool_call_counters (events s') = [1..tool_call_count s'] \<and> m \<le> tool_call_count s' \<and>
        messages s' \<noteq> [] \<and> py_get (last (messages s')) ''content'' (JStr []) = Inr p)"

section \<open>Scenarios\<close>

text \<open>The agent with the defaults of \<^verbatim>\<open>__init__\<close>.\<close>

definition default_agent :: agent where
  "default_agent =
     \<lparr>mcp_server_url = ''http://localhost:8001/mcp'',
      litellm_base_url = ''http://localhost:4000'',
      litellm_api_key = ''sk-1234''\<rparr>"

text \<open>
  A scripted world for the scenarios: discovery gives \<open>discovery\<close>; the backend answers
  its \<open>k\<close>-th request with status 200 and the \<open>k\<close>-th reply of the script (the world
  counts the requests), and the connection fails once the script is used up; every tool
  call gives \<open>content\<close>. Its decoder knows the one document \<^verbatim>\<open>{}\<close> and rejects every
  other string, and its encoder writes a one-entry dictionary of a string without
  escaping, which is all the scenarios need of \<^verbatim>\<open>json.loads\<close> and \<^verbatim>\<open>json.dumps\<close>.
\<close>

definition scripted_env ::
  "(py_exception + provider_tool list) \<Rightarrow> json list \<Rightarrow> (py_exception + content_item list) \<Rightarrow> nat env" where
  "scripted_env discovery replies content =
     \<lparr>mcp_list_tools = (\<lambda>w url. (discovery, w)),
      mcp_call_tool = (\<lambda>w url tool_name arguments. (content, w)),
      http_post = (\<lambda>w url headers data.
         (if w < length replies
          then Inr \<lparr>status_code = 200, response_json = Inr (replies ! w)\<rparr>
          else Inl (PyException ''ConnectError'' ''All connection attempts failed''), Suc w)),
      json_loads = (\<lambda>str. if str = ''{}'' then Some (JObj []) else None),
      json_dumps = (\<lambda>v. case v of
                          JObj [(k, JStr str)] \<Rightarrow>
                            [CHR ''{'', CHR 0x22] @ k @ [CHR 0x22, CHR '':'', CHR '' '', CHR 0x22] @ str @
                            [CHR 0x22, CHR ''}'']
                        | _ \<Rightarrow> [])\<rparr>"

text \<open>A reply whose first choice is a plain answer, and one whose first choice asks for a tool.\<close>

definition final_answer_reply :: "string \<Rightarrow> json" where
  "final_answer_reply answer =
     JObj [(''choices'', JList [JObj [(''message'',
              JObj [(''role'', JStr ''assistant''), (''content'', JStr answer)])]]),
           (''usage'', JObj [(''total_tokens'', JInt 42)])]"

definition function_call_reply :: "string \<Rightarrow> string \<Rightarrow> json" where
  "function_call_reply function_name arguments =
     JObj [(''choices'', JList [JObj [(''message'',
              JObj [(''role'', JStr ''assistant''), (''content'', JNull),
                    (''function_call'',
                       JObj [(''name'', JStr function_name), (''arguments'', JStr arguments)])])]]),
           (''usage'', JObj [(''total_tokens'', JInt 42)])]"

definition sunny :: "py_exception + content_item list" where
  "sunny = Inr [\<lparr>item_text = Some ''Sunny, 65F'', str_repr = ''type=text''\<rparr>]"

section \<open>The conversion of tools\<close>

lemma foldl_snoc_map: "foldl (\<lambda>acc x. acc @ [f x]) acc xs = acc @ map f xs"
  by (induction xs arbitrary: acc) simp_all

lemma convert_mcp_tools_to_litellm_map:
  "convert_mcp_tools_to_litellm mcp_tools = map function_def mcp_tools"
  by (simp add: convert_mcp_tools_to_litellm_def foldl_snoc_map)

text \<open>
  Claim C4. For a list of N tools, N \<ge> 0, the conversion returns N function specs in
  the order of the input. The spec at position \<open>i\<close> carries the name and the description
  of the tool at position \<open>i\<close>; its parameters are the tool's own schema when that schema
  is not empty, and the default empty-object schema when it is empty (a schema the
  provider left out was stored as the empty dictionary); so the tool's own schema is
  replaced if and only if it is empty.
\<close>

theorem convert_mcp_tools_to_litellm_spec:
  "length (convert_mcp_tools_to_litellm mcp_tools) = length mcp_tools \<and>
   (\<forall>i < length mcp_tools.
      \<exists>parameters.
        convert_mcp_tools_to_litellm mcp_tools ! i =
          JObj [(''name'', JStr (name (mcp_tools ! i))),
                (''description'', JStr (description (mcp_tools ! i))),
                (''parameters'', JObj parameters)] \<and>
        (input_schema (mcp_tools ! i) \<noteq> [] \<longrightarrow> parameters = input_schema (mcp_tools ! i)) \<and>
        (input_schema (mcp_tools ! i) = [] \<longrightarrow>
           parameters = [(''type'', JStr ''object''), (''properties'', JObj []), (''required'', JList [])]) \<and>
        ((parameters \<noteq> input_schema (mcp_tools ! i)) = (input_schema (mcp_tools ! i) = [])))"
  by (simp add: convert_mcp_tools_to_litellm_map function_def_def default_parameters_def)

theorem convert_mcp_tools_to_litellm_spec_witness:
  "convert_mcp_tools_to_litellm
     [\<lparr>name = ''weather'', description = ''Get weather'',
       input_schema = [(''type'', JStr ''object''),
                       (''properties'', JObj [(''location'', JObj [(''type'', JStr ''string'')])])]\<rparr>,
      \<lparr>name = ''ping'', description = ''Ping'', input_schema = []\<rparr>] =
   [JObj [(''name'', JStr ''weather''), (''description'', JStr ''Get weather''),
          (''parameters'', JObj [(''type'', JStr ''object''),
                                 (''properties'', JObj [(''location'', JObj [(''type'', JStr ''string'')])])])],
    JObj [(''name'', JStr ''ping''), (''description'', JStr ''Ping''),
          (''parameters'', JObj [(''type'', JStr ''object''), (''properties'', JObj []),
                                 (''required'', JList [])])]]"
proof -
  let ?ts = "[\<lparr>name = ''weather'', description = ''Get weather'',
       input_schema = [(''type'', JStr ''object''),
                       (''properties'', JObj [(''location'', JObj [(''type'', JStr ''string'')])])]\<rparr>,
      \<lparr>name = ''ping'', description = ''Ping'', input_schema = []\<rparr>]"
  from convert_mcp_tools_to_litellm_spec [of ?ts]
  have len: "length (convert_mcp_tools_to_litellm ?ts) = 2"
    and el: "\<forall>i < 2. \<exists>parameters.
        convert_mcp_tools_to_litellm ?ts ! i =
          JObj [(''name'', JStr (name (?ts ! i))),
                (''description'', JStr (description (?ts ! i))),
                (''parameters'', JObj parameters)] \<and>
        (input_schema (?ts ! i) \<noteq> [] \<longrightarrow> parameters = input_schema (?ts ! i)) \<and>
        (input_schema (?ts ! i) = [] \<longrightarrow>
           parameters = [(''type'', JStr ''object''), (''properties'', JObj []), (''required'', JList [])]) \<and>
        ((parameters \<noteq> input_schema (?ts ! i)) = (input_schema (?ts ! i) = []))"
    by simp_all
  from el have e0: "convert_mcp_tools_to_litellm ?ts ! 0 =
      JObj [(''name'', JStr ''weather''), (''description'', JStr ''Get weather''),
            (''parameters'', JObj [(''type'', JStr ''object''),
                                   (''properties'', JObj [(''location'', JObj [(''type'', JStr ''string'')])])])]"
    by (auto dest!: spec [of _ 0])
  from el have e1: "convert_mcp_tools_to_litellm ?ts ! 1 =
      JObj [(''name'', JStr ''ping''), (''description'', JStr ''Ping''),
            (''parameters'', JObj [(''type'', JStr ''object''), (''properties'', JObj []),
                                   (''required'', JList [])])]"
    by (auto dest!: spec [of _ 1])
  show ?thesis
    using len e0 e1 by (auto simp: list_eq_iff_nth_eq less_Suc_eq numeral_2_eq_2)
qed

section \<open>One pass of the loop, and the loop\<close>

lemma tool_call_counters_append [simp]:
  "tool_call_counters (es @ fs) = tool_call_counters es @ tool_call_counters fs"
  by (induction es rule: tool_call_counters.induct) simp_all

lemma outcome_of_simps [simp]:
  "outcome_of (success_dict resp c tok) = Some Success"
  "outcome_of (failure_dict e c) = Some Failed"
  "outcome_of (exhausted_dict m c p) = Some Exhausted"
  by (simp_all add: outcome_of_def success_dict_def failure_dict_def exhausted_dict_def)

lemma conversation_loop_exit:
  "\<not> tool_call_count s < max_tool_calls \<Longrightarrow>
   conversation_loop env self model fns max_tool_calls s = (max_tool_calls_reached max_tool_calls s, s)"
  by (subst conversation_loop.simps) simp

lemma conversation_loop_Continue:
  "tool_call_count s < max_tool_calls \<Longrightarrow> loop_body env self model fns s = Continue s' \<Longrightarrow>
   conversation_loop env self model fns max_tool_calls s =
   conversation_loop env self model fns max_tool_calls s'"
  by (subst conversation_loop.simps) simp

lemma conversation_loop_Return:
  "tool_call_count s < max_tool_calls \<Longrightarrow> loop_body env self model fns s = Return r s' \<Longrightarrow>
   conversation_loop env self model fns max_tool_calls s = (r, s')"
  by (subst conversation_loop.simps) simp

lemma conversation_loop_Raise:
  "tool_call_count s < max_tool_calls \<Longrightarrow> loop_body env self model fns s = Raise e s' \<Longrightarrow>
   conversation_loop env self model fns max_tool_calls s = (failure_dict e (tool_call_count s'), s')"
  by (subst conversation_loop.simps) simp

lemma loop_body_Continue:
  assumes "loop_body env self model fns s = Continue s'"
  shows "\<exists>llm_response w message function_call function_name function_args_str function_args.
      call_litellm env self (world s) (messages s) model (if fns \<noteq> [] then Some fns else None)
        = (Inr llm_response, w) \<and>
      assistant_message llm_response = Inr message \<and>
      py_get message ''function_call'' JNull = Inr function_call \<and> truthy function_call \<and>
      py_get function_call ''name'' JNull = Inr function_name \<and>
      py_get function_call ''arguments'' (JStr ''{}'') = Inr function_args_str \<and>
      loads_function_args env function_args_str = Inr function_args \<and>
      s' = \<lparr>messages = messages s @
                [message,
                 function_message function_name
                   (json_dumps env (fst (execute_mcp_tool env self w function_name function_args)))],
            tool_call_count = tool_call_count s + 1,
            world = snd (execute_mcp_tool env self w function_name function_args),
            events = events s @
                [ModelCalled (tool_call_count s) (messages s),
                 ToolCalled (tool_call_count s + 1) function_name function_args]\<rparr>"
  using assms
  by (auto simp: loop_body_def Let_def split: prod.splits sum.splits if_splits)

lemma loop_body_Return:
  assumes "loop_body env self model fns s = Return r s'"
  shows "\<exists>llm_response w message function_call.
      call_litellm env self (world s) (messages s) model (if fns \<noteq> [] then Some fns else None)
        = (Inr llm_response, w) \<and>
      assistant_message llm_response = Inr message \<and>
      py_get message ''function_call'' JNull = Inr function_call \<and> \<not> truthy function_call \<and>
      final_response message llm_response (tool_call_count s) = Inr r \<and>
      s' = \<lparr>messages = messages s @ [message],
            tool_call_count = tool_call_count s,
            world = w,
            events = events s @ [ModelCalled (tool_call_count s) (messages s)]\<rparr>"
  using assms
  by (auto simp: loop_body_def Let_def split: prod.splits sum.splits if_splits)

lemma loop_body_Raise:
  assumes "loop_body env self model fns s = Raise e s'"
  shows "events s' = events s @ [ModelCalled (tool_call_count s) (messages s)] \<and>
         (tool_call_count s' = tool_call_count s \<or> tool_call_count s' = tool_call_count s + 1)"
  using assms
  by (auto simp: loop_body_def Let_def split: prod.splits sum.splits if_splits)

lemma final_response_success:
  "final_response message llm_response count = Inr r \<Longrightarrow>
   \<exists>response total_tokens. r = success_dict response count total_tokens"
  by (auto simp: final_response_def split: sum.splits)


lemma upto_snoc: "0 \<le> c \<Longrightarrow> [1..c + 1] = [1..c] @ [c + 1]"
  using upto_rec2 [of 1 "c + 1"] by simp

lemma max_tool_calls_reached_dict:
  assumes "messages s \<noteq> []" "last (messages s) = JObj kvs"
  shows "\<exists>p. max_tool_calls_reached m s = exhausted_dict m (tool_call_count s) p \<and>
             py_get (last (messages s)) ''content'' (JStr []) = Inr p"
  using assms by (simp add: max_tool_calls_reached_def)

lemma ends_outcome_of:
  "ends_failed m r s \<Longrightarrow> outcome_of r = Some Failed"
  "ends_success m r s \<Longrightarrow> outcome_of r = Some Success"
  "ends_exhausted m r s \<Longrightarrow> outcome_of r = Some Exhausted"
  by (auto simp: ends_failed_def ends_success_def ends_exhausted_def)

lemma ends_success_not_exhausted: "ends_success m r s \<Longrightarrow> \<not> ends_exhausted m r s'"
proof
  assume a: "ends_success m r s" and b: "ends_exhausted m r s'"
  have "outcome_of r = Some Success" by (rule ends_outcome_of(2) [OF a])
  moreover have "outcome_of r = Some Exhausted" by (rule ends_outcome_of(3) [OF b])
  ultimately show False by simp
qed

lemma loop_outcome:
  assumes "conversation_loop env self model fns m s = (r, s')"
      and "0 \<le> tool_call_count s"
      and "tool_call_counters (events s) = [1..tool_call_count s]"
      and "messages s \<noteq> []" and "\<exists>kvs. last (messages s) = JObj kvs"
  shows "tool_call_count s \<le> tool_call_count s' \<and>
         (tool_call_count s \<le> m \<longrightarrow> tool_call_count s' \<le> m) \<and>
         (ends_failed m r s' \<or> ends_success m r s' \<or> ends_exhausted m r s') \<and>
         (tool_call_count s < m \<longrightarrow> ends_exhausted m r s' \<longrightarrow>
            (\<exists>c n a. events s' \<noteq> [] \<and> last (events s') = ToolCalled c n a))"
  using assms
proof (induction env self model fns m s arbitrary: r s' rule: conversation_loop.induct)
  case (1 env self model fns m s)
  show ?case
  proof (cases "tool_call_count s < m")
    case False
    from "1.prems"(5) obtain kvs where kvs: "last (messages s) = JObj kvs" by blast
    from conversation_loop_exit [OF False] "1.prems"(1)
    have rs: "r = max_tool_calls_reached m s" "s' = s"
      by auto
    from max_tool_calls_reached_dict [OF "1.prems"(4) kvs, of m]
    have "ends_exhausted m r s'"
      using rs False "1.prems"(3,4) by (auto simp: ends_exhausted_def)
    then show ?thesis using rs False by simp
  next
    case True
    show ?thesis
    proof (cases "loop_body env self model fns s")
      case (Continue s1)
      from loop_body_Continue [OF Continue] obtain message fname content w1 fargs where
        s1: "s1 = \<lparr>messages = messages s @ [message, function_message fname content],
                   tool_call_count = tool_call_count s + 1,
                   world = w1,
                   events = events s @ [ModelCalled (tool_call_count s) (messages s),
                                        ToolCalled (tool_call_count s + 1) fname fargs]\<rparr>"
        by fastforce
      have c1: "tool_call_count s1 = tool_call_count s + 1"
        and e1: "tool_call_counters (events s1) = [1..tool_call_count s1]"
        and m1: "messages s1 \<noteq> []" "\<exists>kvs. last (messages s1) = JObj kvs"
        and l1: "events s1 \<noteq> []" "\<exists>c n a. last (events s1) = ToolCalled c n a"
        using "1.prems"(2,3) by (subst s1, simp add: upto_snoc function_message_def)+
      from conversation_loop_Continue [OF True Continue] "1.prems"(1)
      have run: "conversation_loop env self model fns m s1 = (r, s')" by simp
      from "1.IH" [OF True Continue run _ e1 m1] c1 "1.prems"(2)
      have IH: "tool_call_count s1 \<le> tool_call_count s'"
        "tool_call_count s1 \<le> m \<longrightarrow> tool_call_count s' \<le> m"
        "ends_failed m r s' \<or> ends_success m r s' \<or> ends_exhausted m r s'"
        "tool_call_count s1 < m \<longrightarrow> ends_exhausted m r s' \<longrightarrow>
            (\<exists>c n a. events s' \<noteq> [] \<and> last (events s') = ToolCalled c n a)"
        by simp_all
      have last_tool: "ends_exhausted m r s' \<longrightarrow>
            (\<exists>c n a. events s' \<noteq> [] \<and> last (events s') = ToolCalled c n a)"
      proof (cases "tool_call_count s1 < m")
        case True
        then show ?thesis using IH(4) by simp
      next
        case False
        from conversation_loop_exit [OF False] run have "s' = s1" by auto
        then show ?thesis using l1 by simp
      qed
      show ?thesis using IH(1,2,3) last_tool c1 True by auto
    next
      case (Return r1 s1)
      from conversation_loop_Return [OF True Return] "1.prems"(1)
      have rs: "r = r1" "s' = s1" by auto
      from loop_body_Return [OF Return] obtain message llm_response w1 where
        fr: "final_response message llm_response (tool_call_count s) = Inr r1"
        and s1: "s1 = \<lparr>messages = messages s @ [message], tool_call_count = tool_call_count s,
                        world = w1,
                        events = events s @ [ModelCalled (tool_call_count s) (messages s)]\<rparr>"
        by blast
      from final_response_success [OF fr] obtain response total_tokens where
        "r1 = success_dict response (tool_call_count s) total_tokens" by blast
      then have "ends_success m r s'"
        using rs s1 True "1.prems"(3) by (auto simp: ends_success_def)
      then show ?thesis using rs s1 True ends_success_not_exhausted [of m r s' s'] by simp
    next
      case (Raise e s1)
      from conversation_loop_Raise [OF True Raise] "1.prems"(1)
      have rs: "r = failure_dict e (tool_call_count s1)" "s' = s1"
        by auto
      from loop_body_Raise [OF Raise]
      have ev: "events s1 = events s @ [ModelCalled (tool_call_count s) (messages s)]"
        and cnt: "tool_call_count s1 = tool_call_count s \<or> tool_call_count s1 = tool_call_count s + 1"
        by simp_all
      have "ends_failed m r s'"
        unfolding ends_failed_def
        using rs ev cnt True "1.prems"(2,3)
        by (intro exI [of _ e] exI [of _ "tool_call_count s"]) auto
      moreover have "\<not> ends_exhausted m r s'"
        using rs by (auto simp: ends_exhausted_def failure_dict_def exhausted_dict_def)
      ultimately show ?thesis using rs cnt True by auto
    qed
  qed
qed


lemma exchanges_snoc:
  "exchanges xs \<Longrightarrow> is_function_call_request m \<Longrightarrow> is_function_result_for m r \<Longrightarrow>
   exchanges (xs @ [m, r])"
  by (induction xs rule: exchanges.induct) simp_all

lemma function_message_not_request: "\<not> is_function_call_request (function_message n c)"
  by (simp add: is_function_call_request_def function_message_def)

lemma exchanges_no_unanswered: "exchanges xs \<Longrightarrow> no_unanswered_request xs"
  by (induction xs rule: exchanges.induct) simp_all

lemma no_unanswered_Cons:
  "\<not> is_function_call_request u \<Longrightarrow> no_unanswered_request xs \<Longrightarrow> no_unanswered_request (u # xs)"
  by (cases xs) simp_all

lemma loop_conversation:
  assumes "conversation_loop env self model fns m s = (r, s')"
      and "\<exists>tail. messages s = u # tail \<and> exchanges tail"
      and "\<forall>c msgs. ModelCalled c msgs \<in> set (events s) \<longrightarrow> (\<exists>tail. msgs = u # tail \<and> exchanges tail)"
  shows "\<forall>c msgs. ModelCalled c msgs \<in> set (events s') \<longrightarrow> (\<exists>tail. msgs = u # tail \<and> exchanges tail)"
  using assms
proof (induction env self model fns m s arbitrary: r s' rule: conversation_loop.induct)
  case (1 env self model fns m s)
  show ?case
  proof (cases "tool_call_count s < m")
    case False
    from conversation_loop_exit [OF False] "1.prems"(1) have "s' = s" by auto
    then show ?thesis using "1.prems"(3) by simp
  next
    case True
    show ?thesis
    proof (cases "loop_body env self model fns s")
      case (Continue s1)
      from loop_body_Continue [OF Continue] obtain message function_call fname content w1 fargs where
        fc: "py_get message ''function_call'' JNull = Inr function_call" "truthy function_call"
            "py_get function_call ''name'' JNull = Inr fname"
        and s1: "s1 = \<lparr>messages = messages s @ [message, function_message fname content],
                   tool_call_count = tool_call_count s + 1,
                   world = w1,
                   events = events s @ [ModelCalled (tool_call_count s) (messages s),
                                        ToolCalled (tool_call_count s + 1) fname fargs]\<rparr>"
        by fastforce
      from fc have req: "is_function_call_request message"
        and res: "is_function_result_for message (function_message fname content)"
        by (simp_all add: is_function_call_request_def is_function_result_for_def function_message_def)
      from "1.prems"(2) obtain tail where tail: "messages s = u # tail" "exchanges tail" by blast
      have m1: "\<exists>tail. messages s1 = u # tail \<and> exchanges tail"
        using tail exchanges_snoc [OF tail(2) req res] by (subst s1) simp
      have e1: "\<forall>c msgs. ModelCalled c msgs \<in> set (events s1) \<longrightarrow> (\<exists>tail. msgs = u # tail \<and> exchanges tail)"
        using "1.prems"(2,3) by (subst s1) auto
      from conversation_loop_Continue [OF True Continue] "1.prems"(1)
      have run: "conversation_loop env self model fns m s1 = (r, s')" by simp
      from "1.IH" [OF True Continue run m1 e1] show ?thesis .
    next
      case (Return r1 s1)
      from conversation_loop_Return [OF True Return] "1.prems"(1) have rs: "s' = s1" by auto
      from loop_body_Return [OF Return]
      have "events s1 = events s @ [ModelCalled (tool_call_count s) (messages s)]" by auto
      then show ?thesis using rs "1.prems"(2,3) by auto
    next
      case (Raise e s1)
      from conversation_loop_Raise [OF True Raise] "1.prems"(1) have rs: "s' = s1" by auto
      from loop_body_Raise [OF Raise]
      have "events s1 = events s @ [ModelCalled (tool_call_count s) (messages s)]" by simp
      then show ?thesis using rs "1.prems"(2,3) by auto
    qed
  qed
qed

lemma process_request_no_tools:
  "mcp_list_tools env w (mcp_server_url self) = (Inr [], w') \<Longrightarrow>
   process_request env self w request model max_tool_calls =
   conversation_loop env self model [] max_tool_calls
     \<lparr>messages = [JObj [(''role'', JStr ''user''), (''content'', JStr request)]],
      tool_call_count = 0, world = w', events = []\<rparr>"
  by (simp add: process_request_def fetch_mcp_tools_def convert_mcp_tools_to_litellm_def)

lemma loop_trace:
  assumes "conversation_loop env self model fns m s = (r, s')"
      and "sorted (map event_counter (events s))"
      and "\<forall>e \<in> set (events s). event_counter e \<le> tool_call_count s"
  shows "sorted (map event_counter (events s')) \<and>
         (\<forall>e \<in> set (events s'). event_counter e \<le> tool_call_count s') \<and>
         (\<exists>es. events s' = events s @ es \<and>
               (es \<noteq> [] \<longrightarrow> hd es = ModelCalled (tool_call_count s) (messages s)))"
  using assms
proof (induction env self model fns m s arbitrary: r s' rule: conversation_loop.induct)
  case (1 env self model fns m s)
  show ?case
  proof (cases "tool_call_count s < m")
    case False
    from conversation_loop_exit [OF False] "1.prems"(1) have "s' = s" by auto
    then show ?thesis using "1.prems"(2,3) by simp
  next
    case True
    show ?thesis
    proof (cases "loop_body env self model fns s")
      case (Continue s1)
      from loop_body_Continue [OF Continue] obtain fname fargs where
        c1: "tool_call_count s1 = tool_call_count s + 1"
        and e1: "events s1 = events s @ [ModelCalled (tool_call_count s) (messages s),
                                         ToolCalled (tool_call_count s + 1) fname fargs]"
        by fastforce
      have so: "sorted (map event_counter (events s1))"
        using "1.prems"(2,3) by (auto simp: e1 sorted_append)
      have le: "\<forall>e \<in> set (events s1). event_counter e \<le> tool_call_count s1"
        using "1.prems"(3) by (auto simp: e1 c1)
      from conversation_loop_Continue [OF True Continue] "1.prems"(1)
      have run: "conversation_loop env self model fns m s1 = (r, s')" by simp
      from "1.IH" [OF True Continue run so le] obtain es where
        "sorted (map event_counter (events s'))"
        "\<forall>e \<in> set (events s'). event_counter e \<le> tool_call_count s'"
        "events s' = events s1 @ es" by blast
      then show ?thesis by (auto simp: e1)
    next
      case (Return r1 s1)
      from conversation_loop_Return [OF True Return] "1.prems"(1) have rs: "s' = s1" by auto
      from loop_body_Return [OF Return]
      have "events s1 = events s @ [ModelCalled (tool_call_count s) (messages s)]"
        and "tool_call_count s1 = tool_call_count s" by auto
      then show ?thesis using rs "1.prems"(2,3) by (auto simp: sorted_append)
    next
      case (Raise e s1)
      from conversation_loop_Raise [OF True Raise] "1.prems"(1) have rs: "s' = s1" by auto
      from loop_body_Raise [OF Raise]
      have "events s1 = events s @ [ModelCalled (tool_call_count s) (messages s)]"
        and "tool_call_count s1 = tool_call_count s \<or> tool_call_count s1 = tool_call_count s + 1"
        by simp_all
      then show ?thesis using rs "1.prems"(2,3) by (auto simp: sorted_append)
    qed
  qed
qed

lemma process_request_fetched:
  "fetch_mcp_tools env self w = (Inr mcp_tools, w0) \<Longrightarrow>
   process_request env self w request model max_tool_calls =
   conversation_loop env self model (convert_mcp_tools_to_litellm mcp_tools) max_tool_calls
     \<lparr>messages = [JObj [(''role'', JStr ''user''), (''content'', JStr request)]],
      tool_call_count = 0, world = w0, events = []\<rparr>"
  by (simp add: process_request_def)

lemma process_request_not_fetched:
  "fetch_mcp_tools env self w = (Inl e, w0) \<Longrightarrow>
   process_request env self w request model max_tool_calls =
   (failure_dict e 0, \<lparr>messages = [], tool_call_count = 0, world = w0, events = []\<rparr>)"
  by (simp add: process_request_def)

lemma tool_calls_made_dicts [simp]:
  "py_get (failure_dict e c) ''tool_calls_made'' JNull = Inr (JInt c)"
  "py_get (success_dict resp c tok) ''tool_calls_made'' JNull = Inr (JInt c)"
  "py_get (exhausted_dict m c p) ''tool_calls_made'' JNull = Inr (JInt c)"
  by (simp_all add: failure_dict_def success_dict_def exhausted_dict_def)

lemma counters_upto_length:
  "0 \<le> n \<Longrightarrow> xs = [1..n] \<Longrightarrow> xs = [1..int (length xs)] \<and> int (length xs) = n"
  by simp

section \<open>Discovery failure\<close>

text \<open>
  Claim C6. When tool discovery fails, that is, the provider session of
  \<^verbatim>\<open>_fetch_mcp_tools\<close> raises \<open>e\<close>, the fetch re-raises \<open>e\<close> and \<^verbatim>\<open>process_request\<close>
  returns the failure dictionary whose error is \<^verbatim>\<open>str(e)\<close> and whose
  \<^verbatim>\<open>tool_calls_made\<close> is 0; the trace of the run is empty, so the model client was
  never invoked (nor any tool).
\<close>

theorem discovery_failure_outcome:
  assumes "mcp_list_tools env w (mcp_server_url self) = (Inl e, w')"
  shows "fetch_mcp_tools env self w = (Inl e, w') \<and>
         process_request env self w request model max_tool_calls =
           (JObj [(''success'', JBool False),
                  (''error'', JStr (exc_str e)),
                  (''tool_calls_made'', JInt 0)],
            \<lparr>messages = [], tool_call_count = 0, world = w', events = []\<rparr>)"
  using assms by (simp add: process_request_def fetch_mcp_tools_def failure_dict_def)

theorem discovery_failure_outcome_witness:
  "mcp_list_tools
     (scripted_env (Inl (PyException ''ConnectError'' ''Connection refused''))
        [final_answer_reply ''Hello''] sunny)
     0 (mcp_server_url default_agent) =
     (Inl (PyException ''ConnectError'' ''Connection refused''), 0) \<and>
   process_request
     (scripted_env (Inl (PyException ''ConnectError'' ''Connection refused''))
        [final_answer_reply ''Hello''] sunny)
     default_agent 0 ''What is the weather?'' ''gpt-3.5-turbo'' 5 =
     (JObj [(''success'', JBool False),
            (''error'', JStr ''Connection refused''),
            (''tool_calls_made'', JInt 0)],
      \<lparr>messages = [], tool_call_count = 0, world = 0, events = []\<rparr>)"
proof -
  let ?env = "scripted_env (Inl (PyException ''ConnectError'' ''Connection refused''))
        [final_answer_reply ''Hello''] sunny"
  have h: "mcp_list_tools ?env 0 (mcp_server_url default_agent) =
     (Inl (PyException ''ConnectError'' ''Connection refused''), 0)"
    by (simp add: scripted_env_def)
  from discovery_failure_outcome [OF h] h show ?thesis by simp
qed

section \<open>A reply with an empty list of choices\<close>

text \<open>
  Claim C10. When the backend's reply has a \<^verbatim>\<open>choices\<close> key holding the empty list,
  taking the first choice raises \<^verbatim>\<open>IndexError\<close>; nothing is appended to the
  conversation, and the run ends at once with the failure dictionary (success false)
  that carries the text of the indexing error and the counter as it stands, not with a
  success and an empty response.
\<close>

theorem empty_choices_fails:
  assumes "tool_call_count s < max_tool_calls"
      and "call_litellm env self (world s) (messages s) model
             (if fns \<noteq> [] then Some fns else None) = (Inr (JObj reply), w)"
      and "map_of reply ''choices'' = Some (JList [])"
  shows "conversation_loop env self model fns max_tool_calls s =
           (JObj [(''success'', JBool False),
                  (''error'', JStr ''list index out of range''),
                  (''tool_calls_made'', JInt (tool_call_count s))],
            s\<lparr>events := events s @ [ModelCalled (tool_call_count s) (messages s)], world := w\<rparr>)"
proof -
  have "assistant_message (JObj reply) = Inl (PyException ''IndexError'' ''list index out of range'')"
    using assms(3) by (simp add: assistant_message_def)
  then have "loop_body env self model fns s =
      Raise (PyException ''IndexError'' ''list index out of range'')
        (s\<lparr>events := events s @ [ModelCalled (tool_call_count s) (messages s)], world := w\<rparr>)"
    using assms(2) by (simp add: loop_body_def Let_def)
  from conversation_loop_Raise [OF assms(1) this] show ?thesis
    by (simp add: failure_dict_def)
qed

theorem empty_choices_fails_witness:
  "tool_call_count \<lparr>messages = [JObj [(''role'', JStr ''user''), (''content'', JStr ''Hi'')]],
                     tool_call_count = 0, world = 0::nat, events = []\<rparr> < 5 \<and>
   call_litellm (scripted_env (Inr []) [JObj [(''choices'', JList [])]] sunny) default_agent 0
     [JObj [(''role'', JStr ''user''), (''content'', JStr ''Hi'')]] ''gpt-3.5-turbo'' None =
     (Inr (JObj [(''choices'', JList [])]), 1) \<and>
   map_of [(''choices'', JList [])] ''choices'' = Some (JList []) \<and>
   process_request (scripted_env (Inr []) [JObj [(''choices'', JList [])]] sunny)
     default_agent 0 ''Hi'' ''gpt-3.5-turbo'' 5 =
     (JObj [(''success'', JBool False),
            (''error'', JStr ''list index out of range''),
            (''tool_calls_made'', JInt 0)],
      \<lparr>messages = [JObj [(''role'', JStr ''user''), (''content'', JStr ''Hi'')]],
        tool_call_count = 0, world = 1,
        events = [ModelCalled 0 [JObj [(''role'', JStr ''user''), (''content'', JStr ''Hi'')]]]\<rparr>)"
proof -
  let ?env = "scripted_env (Inr []) [JObj [(''choices'', JList [])]] sunny"
  let ?s = "\<lparr>messages = [JObj [(''role'', JStr ''user''), (''content'', JStr ''Hi'')]],
             tool_call_count = 0, world = 0::nat, events = []\<rparr>"
  have h1: "tool_call_count ?s < 5" by simp
  have h2: "call_litellm ?env default_agent (world ?s) (messages ?s) ''gpt-3.5-turbo''
              (if ([]::json list) \<noteq> [] then Some [] else None) =
            (Inr (JObj [(''choices'', JList [])]), 1)"
    by (simp add: call_litellm_def scripted_env_def Let_def)
  have h3: "map_of [(''choices'', JList [])] ''choices'' = Some (JList [])" by simp
  have p: "process_request ?env default_agent 0 ''Hi'' ''gpt-3.5-turbo'' 5 =
           conversation_loop ?env default_agent ''gpt-3.5-turbo'' [] 5 ?s"
    by (simp add: process_request_def fetch_mcp_tools_def convert_mcp_tools_to_litellm_def
          scripted_env_def)
  from empty_choices_fails [OF h1 h2 h3] h1 h2 h3 p show ?thesis by simp
qed

section \<open>The tool invoker\<close>

text \<open>
  Claim C5. For every tool name and arguments, \<^verbatim>\<open>_execute_mcp_tool\<close> returns a
  dictionary with one string entry, \<^verbatim>\<open>result\<close> or \<^verbatim>\<open>error\<close>, and never raises:
  an exception of the provider session, whatever its cause, becomes the entry
  \<^verbatim>\<open>error\<close> with the text \<^verbatim>\<open>Tool execution failed: \<close> followed by \<^verbatim>\<open>str(e)\<close>. When
  the call gives one or more content items, only the first counts: the result is its
  text when it has one (a non-empty string), and its \<^verbatim>\<open>str\<close> representation when the
  text is absent (\<^verbatim>\<open>None\<close> or the empty string). When the call gives no content item,
  the result is the sentinel string.
\<close>

theorem execute_mcp_tool_never_raises:
  "(\<exists>payload w'.
      execute_mcp_tool env self w tool_name arguments = (JObj [(''result'', JStr payload)], w') \<or>
      execute_mcp_tool env self w tool_name arguments = (JObj [(''error'', JStr payload)], w')) \<and>
   (\<forall>e w'. mcp_call_tool env w (mcp_server_url self) tool_name arguments = (Inl e, w') \<longrightarrow>
      execute_mcp_tool env self w tool_name arguments =
        (JObj [(''error'', JStr (''Tool execution failed: '' @ exc_str e))], w')) \<and>
   (\<forall>item rest w'.
      mcp_call_tool env w (mcp_server_url self) tool_name arguments = (Inr (item # rest), w') \<longrightarrow>
      (\<exists>payload.
         execute_mcp_tool env self w tool_name arguments = (JObj [(''result'', JStr payload)], w') \<and>
         (\<forall>t. item_text item = Some t \<and> t \<noteq> [] \<longrightarrow> payload = t) \<and>
         (item_text item = None \<or> item_text item = Some [] \<longrightarrow> payload = str_repr item))) \<and>
   (\<forall>w'. mcp_call_tool env w (mcp_server_url self) tool_name arguments = (Inr [], w') \<longrightarrow>
      execute_mcp_tool env self w tool_name arguments =
        (JObj [(''result'', JStr ''Tool executed successfully but returned no content'')], w'))"
  by (auto simp: execute_mcp_tool_def split: prod.splits sum.splits list.splits option.splits)


theorem execute_mcp_tool_never_raises_witness:
  "execute_mcp_tool
     (scripted_env (Inr []) []
        (Inr [\<lparr>item_text = Some ''Sunny, 65F'', str_repr = ''type=text''\<rparr>,
              \<lparr>item_text = Some ''second item'', str_repr = ''type=text''\<rparr>]))
     default_agent 0 (JStr ''weather'') (JObj [(''location'', JStr ''SF'')]) =
     (JObj [(''result'', JStr ''Sunny, 65F'')], 0) \<and>
   execute_mcp_tool
     (scripted_env (Inr []) [] (Inr [\<lparr>item_text = None, str_repr = ''type=image''\<rparr>]))
     default_agent 0 (JStr ''camera'') (JObj []) =
     (JObj [(''result'', JStr ''type=image'')], 0) \<and>
   execute_mcp_tool
     (scripted_env (Inr []) [] (Inl (PyException ''McpError'' ''Unknown tool: wether'')))
     default_agent 0 (JStr ''wether'') (JObj []) =
     (JObj [(''error'', JStr ''Tool execution failed: Unknown tool: wether'')], 0) \<and>
   execute_mcp_tool (scripted_env (Inr []) [] (Inr [])) default_agent 0 (JStr ''noop'') (JObj []) =
     (JObj [(''result'', JStr ''Tool executed successfully but returned no content'')], 0)"
proof (intro conjI)
  let ?two = "[\<lparr>item_text = Some ''Sunny, 65F'', str_repr = ''type=text''\<rparr>,
              \<lparr>item_text = Some ''second item'', str_repr = ''type=text''\<rparr>]"
  have "mcp_call_tool (scripted_env (Inr []) [] (Inr ?two)) 0 (mcp_server_url default_agent)
          (JStr ''weather'') (JObj [(''location'', JStr ''SF'')]) =
        (Inr (\<lparr>item_text = Some ''Sunny, 65F'', str_repr = ''type=text''\<rparr> #
              [\<lparr>item_text = Some ''second item'', str_repr = ''type=text''\<rparr>]), 0)"
    by (simp add: scripted_env_def)
  with execute_mcp_tool_never_raises
         [of "scripted_env (Inr []) [] (Inr ?two)" default_agent 0 "JStr ''weather''"
             "JObj [(''location'', JStr ''SF'')]"]
  show "execute_mcp_tool (scripted_env (Inr []) [] (Inr ?two))
     default_agent 0 (JStr ''weather'') (JObj [(''location'', JStr ''SF'')]) =
     (JObj [(''result'', JStr ''Sunny, 65F'')], 0)"
    by fastforce
next
  have "mcp_call_tool (scripted_env (Inr []) [] (Inr [\<lparr>item_text = None, str_repr = ''type=image''\<rparr>]))
          0 (mcp_server_url default_agent) (JStr ''camera'') (JObj []) =
        (Inr (\<lparr>item_text = None, str_repr = ''type=image''\<rparr> # []), 0)"
    by (simp add: scripted_env_def)
  with execute_mcp_tool_never_raises
         [of "scripted_env (Inr []) [] (Inr [\<lparr>item_text = None, str_repr = ''type=image''\<rparr>])"
             default_agent 0 "JStr ''camera''" "JObj []"]
  show "execute_mcp_tool
     (scripted_env (Inr []) [] (Inr [\<lparr>item_text = None, str_repr = ''type=image''\<rparr>]))
     default_agent 0 (JStr ''camera'') (JObj []) =
     (JObj [(''result'', JStr ''type=image'')], 0)"
    by fastforce
next
  have "mcp_call_tool (scripted_env (Inr []) [] (Inl (PyException ''McpError'' ''Unknown tool: wether'')))
          0 (mcp_server_url default_agent) (JStr ''wether'') (JObj []) =
        (Inl (PyException ''McpError'' ''Unknown tool: wether''), 0)"
    by (simp add: scripted_env_def)
  with execute_mcp_tool_never_raises
         [of "scripted_env (Inr []) [] (Inl (PyException ''McpError'' ''Unknown tool: wether''))"
             default_agent 0 "JStr ''wether''" "JObj []"]
  show "execute_mcp_tool
     (scripted_env (Inr []) [] (Inl (PyException ''McpError'' ''Unknown tool: wether'')))
     default_agent 0 (JStr ''wether'') (JObj []) =
     (JObj [(''error'', JStr ''Tool execution failed: Unknown tool: wether'')], 0)"
    by fastforce
next
  have "mcp_call_tool (scripted_env (Inr []) [] (Inr [])) 0 (mcp_server_url default_agent)
          (JStr ''noop'') (JObj []) = (Inr [], 0)"
    by (simp add: scripted_env_def)
  with execute_mcp_tool_never_raises
         [of "scripted_env (Inr []) [] (Inr [])" default_agent 0 "JStr ''noop''" "JObj []"]
  show "execute_mcp_tool (scripted_env (Inr []) [] (Inr [])) default_agent 0 (JStr ''noop'') (JObj []) =
     (JObj [(''result'', JStr ''Tool executed successfully but returned no content'')], 0)"
    by fastforce
qed

section \<open>Arguments that do not decode\<close>



section \<open>A turn without a function call\<close>

text \<open>
  Claim C8, amended. When the model's turn is a mapping that carries no function-call
  request, and the reply's \<^verbatim>\<open>usage\<close> entry is absent or a mapping, the run ends at
  once with the success dictionary: the response is the turn's content (the empty
  string when it has none), \<^verbatim>\<open>tool_calls_made\<close> is the counter, unchanged by this turn
  (0 on the first turn), and \<^verbatim>\<open>total_tokens\<close> is read from this reply's usage (0 when
  it has none). The turn is appended to the conversation and nothing else is called.
\<close>

theorem final_answer_ends_run:
  assumes "tool_call_count s < max_tool_calls"
      and "call_litellm env self (world s) (messages s) model
             (if fns \<noteq> [] then Some fns else None) = (Inr (JObj reply), w)"
      and "assistant_message (JObj reply) = Inr (JObj message)"
      and "\<not> is_function_call_request (JObj message)"
      and "map_of reply ''usage'' = None \<and> usage = [] \<or> map_of reply ''usage'' = Some (JObj usage)"
  shows "conversation_loop env self model fns max_tool_calls s =
           (JObj [(''success'', JBool True),
                  (''response'', case map_of message ''content'' of Some c \<Rightarrow> c | None \<Rightarrow> JStr []),
                  (''tool_calls_made'', JInt (tool_call_count s)),
                  (''total_tokens'',
                     case map_of usage ''total_tokens'' of Some t \<Rightarrow> t | None \<Rightarrow> JInt 0)],
            \<lparr>messages = messages s @ [JObj message],
              tool_call_count = tool_call_count s,
              world = w,
              events = events s @ [ModelCalled (tool_call_count s) (messages s)]\<rparr>)"
proof -
  have fr: "final_response (JObj message) (JObj reply) (tool_call_count s) =
      Inr (success_dict (case map_of message ''content'' of Some c \<Rightarrow> c | None \<Rightarrow> JStr [])
             (tool_call_count s)
             (case map_of usage ''total_tokens'' of Some t \<Rightarrow> t | None \<Rightarrow> JInt 0))"
    using assms(5) by (auto simp: final_response_def)
  have "loop_body env self model fns s =
      Return (success_dict (case map_of message ''content'' of Some c \<Rightarrow> c | None \<Rightarrow> JStr [])
             (tool_call_count s)
             (case map_of usage ''total_tokens'' of Some t \<Rightarrow> t | None \<Rightarrow> JInt 0))
        \<lparr>messages = messages s @ [JObj message],
              tool_call_count = tool_call_count s,
              world = w,
              events = events s @ [ModelCalled (tool_call_count s) (messages s)]\<rparr>"
    using assms(2,3,4) fr by (simp add: loop_body_def Let_def is_function_call_request_def)
  from conversation_loop_Return [OF assms(1) this] show ?thesis
    by (simp add: success_dict_def)
qed

theorem final_answer_ends_run_witness:
  "call_litellm (scripted_env (Inr []) [final_answer_reply ''Hello''] sunny) default_agent 0
     [JObj [(''role'', JStr ''user''), (''content'', JStr ''Hi'')]] ''gpt-3.5-turbo'' None =
     (Inr (final_answer_reply ''Hello''), 1) \<and>
   assistant_message (final_answer_reply ''Hello'') =
     Inr (JObj [(''role'', JStr ''assistant''), (''content'', JStr ''Hello'')]) \<and>
   \<not> is_function_call_request (JObj [(''role'', JStr ''assistant''), (''content'', JStr ''Hello'')]) \<and>
   process_request (scripted_env (Inr []) [final_answer_reply ''Hello''] sunny)
     default_agent 0 ''Hi'' ''gpt-3.5-turbo'' 5 =
     (JObj [(''success'', JBool True),
            (''response'', JStr ''Hello''),
            (''tool_calls_made'', JInt 0),
            (''total_tokens'', JInt 42)],
      \<lparr>messages = [JObj [(''role'', JStr ''user''), (''content'', JStr ''Hi'')],
                    JObj [(''role'', JStr ''assistant''), (''content'', JStr ''Hello'')]],
        tool_call_count = 0, world = 1,
        events = [ModelCalled 0 [JObj [(''role'', JStr ''user''), (''content'', JStr ''Hi'')]]]\<rparr>)"
proof -
  let ?env = "scripted_env (Inr []) [final_answer_reply ''Hello''] sunny"
  let ?s = "\<lparr>messages = [JObj [(''role'', JStr ''user''), (''content'', JStr ''Hi'')]],
             tool_call_count = 0, world = 0::nat, events = []\<rparr>"
  let ?reply = "[(''choices'', JList [JObj [(''message'',
              JObj [(''role'', JStr ''assistant''), (''content'', JStr ''Hello'')])]]),
           (''usage'', JObj [(''total_tokens'', JInt 42)])]"
  let ?m = "[(''role'', JStr ''assistant''), (''content'', JStr ''Hello'')]"
  have r: "final_answer_reply ''Hello'' = JObj ?reply" by (simp add: final_answer_reply_def)
  have h1: "tool_call_count ?s < 5" by simp
  have h2: "call_litellm ?env default_agent (world ?s) (messages ?s) ''gpt-3.5-turbo''
              (if ([]::json list) \<noteq> [] then Some [] else None) = (Inr (JObj ?reply), 1)"
    by (simp add: call_litellm_def scripted_env_def Let_def r)
  have h3: "assistant_message (JObj ?reply) = Inr (JObj ?m)"
    by (simp add: assistant_message_def)
  have h4: "\<not> is_function_call_request (JObj ?m)"
    by (simp add: is_function_call_request_def)
  have h5: "map_of ?reply ''usage'' = None \<and> [(''total_tokens'', JInt 42)] = [] \<or>
            map_of ?reply ''usage'' = Some (JObj [(''total_tokens'', JInt 42)])" by simp
  have p: "process_request ?env default_agent 0 ''Hi'' ''gpt-3.5-turbo'' 5 =
           conversation_loop ?env default_agent ''gpt-3.5-turbo'' [] 5 ?s"
    by (rule process_request_no_tools) (simp add: scripted_env_def)
  from final_answer_ends_run [OF h1 h2 h3 h4 h5] h2 h3 h4 p r show ?thesis by simp
qed

text \<open>
  Claim C8 as stated, for every turn without a function-call request, fails: the
  backend answers \<^verbatim>\<open>Hello\<close> without a function call, but its reply has
  \<^verbatim>\<open>"usage": null\<close>; reading \<^verbatim>\<open>total_tokens\<close> from it raises \<^verbatim>\<open>AttributeError\<close> and
  the run returns the failure dictionary.
\<close>

theorem final_answer_null_usage_counterexample:
  "assistant_message
     (JObj [(''choices'', JList [JObj [(''message'',
               JObj [(''role'', JStr ''assistant''), (''content'', JStr ''Hello'')])]]),
            (''usage'', JNull)]) =
     Inr (JObj [(''role'', JStr ''assistant''), (''content'', JStr ''Hello'')]) \<and>
   \<not> is_function_call_request (JObj [(''role'', JStr ''assistant''), (''content'', JStr ''Hello'')]) \<and>
   fst (process_request
     (scripted_env (Inr [])
        [JObj [(''choices'', JList [JObj [(''message'',
                  JObj [(''role'', JStr ''assistant''), (''content'', JStr ''Hello'')])]]),
               (''usage'', JNull)]] sunny)
     default_agent 0 ''Hi'' ''gpt-3.5-turbo'' 5) =
     JObj [(''success'', JBool False),
           (''error'', JStr ([CHR 0x27] @ ''NoneType'' @ [CHR 0x27] @ '' object has no attribute '' @
                            [CHR 0x27] @ ''get'' @ [CHR 0x27])),
           (''tool_calls_made'', JInt 0)]"
  by code_simp

section \<open>The first choice of a reply\<close>

text \<open>
  Claim C9. The turn of a reply is read from the first element of its \<^verbatim>\<open>choices\<close>
  list, whatever follows it. A reply with no \<^verbatim>\<open>choices\<close> key is treated as the empty
  turn: the empty message is appended to the conversation and handled as a final
  answer with empty content, which gives the success dictionary with the empty response
  (and the reply's token usage); the missing key is no failure of the run. (The only
  failure then possible is that of the final-answer handling itself, on a usage entry
  that is not a mapping.)
\<close>

theorem first_choice_is_the_turn:
  "(\<forall>choice others. map_of reply ''choices'' = Some (JList (choice # others)) \<longrightarrow>
      assistant_message (JObj reply) = py_get choice ''message'' (JObj [])) \<and>
   (map_of reply ''choices'' = None \<longrightarrow>
      assistant_message (JObj reply) = Inr (JObj []) \<and>
      (tool_call_count s < max_tool_calls \<longrightarrow>
       call_litellm env self (world s) (messages s) model
         (if fns \<noteq> [] then Some fns else None) = (Inr (JObj reply), w) \<longrightarrow>
       conversation_loop env self model fns max_tool_calls s =
         (case py_get (case map_of reply ''usage'' of Some usage \<Rightarrow> usage | None \<Rightarrow> JObj [])
                 ''total_tokens'' (JInt 0) of
            Inr total_tokens \<Rightarrow>
              JObj [(''success'', JBool True),
                    (''response'', JStr []),
                    (''tool_calls_made'', JInt (tool_call_count s)),
                    (''total_tokens'', total_tokens)]
          | Inl e \<Rightarrow>
              JObj [(''success'', JBool False),
                    (''error'', JStr (exc_str e)),
                    (''tool_calls_made'', JInt (tool_call_count s))],
          \<lparr>messages = messages s @ [JObj []],
            tool_call_count = tool_call_count s,
            world = w,
            events = events s @ [ModelCalled (tool_call_count s) (messages s)]\<rparr>)))"
proof (intro conjI allI impI)
  fix choice others
  assume "map_of reply ''choices'' = Some (JList (choice # others))"
  then show "assistant_message (JObj reply) = py_get choice ''message'' (JObj [])"
    by (simp add: assistant_message_def)
next
  assume "map_of reply ''choices'' = None"
  then show "assistant_message (JObj reply) = Inr (JObj [])"
    by (simp add: assistant_message_def)
next
  let ?s1 = "\<lparr>messages = messages s @ [JObj []],
            tool_call_count = tool_call_count s,
            world = w,
            events = events s @ [ModelCalled (tool_call_count s) (messages s)]\<rparr>"
  assume nc: "map_of reply ''choices'' = None"
    and lt: "tool_call_count s < max_tool_calls"
    and call: "call_litellm env self (world s) (messages s) model
         (if fns \<noteq> [] then Some fns else None) = (Inr (JObj reply), w)"
  from nc have am: "assistant_message (JObj reply) = Inr (JObj [])"
    by (simp add: assistant_message_def)
  show "conversation_loop env self model fns max_tool_calls s =
         (case py_get (case map_of reply ''usage'' of Some usage \<Rightarrow> usage | None \<Rightarrow> JObj [])
                 ''total_tokens'' (JInt 0) of
            Inr total_tokens \<Rightarrow>
              JObj [(''success'', JBool True),
                    (''response'', JStr []),
                    (''tool_calls_made'', JInt (tool_call_count s)),
                    (''total_tokens'', total_tokens)]
          | Inl e \<Rightarrow>
              JObj [(''success'', JBool False),
                    (''error'', JStr (exc_str e)),
                    (''tool_calls_made'', JInt (tool_call_count s))],
          ?s1)"
  proof (cases "py_get (case map_of reply ''usage'' of Some usage \<Rightarrow> usage | None \<Rightarrow> JObj [])
                 ''total_tokens'' (JInt 0)")
    case (Inl e)
    then have "final_response (JObj []) (JObj reply) (tool_call_count s) = Inl e"
      by (simp add: final_response_def)
    then have "loop_body env self model fns s = Raise e ?s1"
      using call am by (simp add: loop_body_def Let_def)
    from conversation_loop_Raise [OF lt this] Inl show ?thesis
      by (simp add: failure_dict_def)
  next
    case (Inr total_tokens)
    then have "final_response (JObj []) (JObj reply) (tool_call_count s) =
                 Inr (success_dict (JStr []) (tool_call_count s) total_tokens)"
      by (simp add: final_response_def)
    then have "loop_body env self model fns s =
                 Return (success_dict (JStr []) (tool_call_count s) total_tokens) ?s1"
      using call am by (simp add: loop_body_def Let_def)
    from conversation_loop_Return [OF lt this] Inr show ?thesis
      by (simp add: success_dict_def)
  qed
qed

theorem first_choice_is_the_turn_witness:
  "assistant_message
     (JObj [(''choices'',
             JList [JObj [(''message'', JObj [(''content'', JStr ''first'')])],
                    JObj [(''message'', JObj [(''content'', JStr ''second'')])]])]) =
     Inr (JObj [(''content'', JStr ''first'')]) \<and>
   map_of [(''id'', JStr ''chatcmpl-1'')] ''choices'' = None \<and>
   call_litellm (scripted_env (Inr []) [JObj [(''id'', JStr ''chatcmpl-1'')]] sunny) default_agent 0
     [JObj [(''role'', JStr ''user''), (''content'', JStr ''Hi'')]] ''gpt-3.5-turbo'' None =
     (Inr (JObj [(''id'', JStr ''chatcmpl-1'')]), 1) \<and>
   process_request (scripted_env (Inr []) [JObj [(''id'', JStr ''chatcmpl-1'')]] sunny)
     default_agent 0 ''Hi'' ''gpt-3.5-turbo'' 5 =
     (JObj [(''success'', JBool True),
            (''response'', JStr []),
            (''tool_calls_made'', JInt 0),
            (''total_tokens'', JInt 0)],
      \<lparr>messages = [JObj [(''role'', JStr ''user''), (''content'', JStr ''Hi'')], JObj []],
        tool_call_count = 0, world = 1,
        events = [ModelCalled 0 [JObj [(''role'', JStr ''user''), (''content'', JStr ''Hi'')]]]\<rparr>)"
proof -
  let ?env = "scripted_env (Inr []) [JObj [(''id'', JStr ''chatcmpl-1'')]] sunny"
  let ?s = "\<lparr>messages = [JObj [(''role'', JStr ''user''), (''content'', JStr ''Hi'')]],
             tool_call_count = 0, world = 0::nat, events = []\<rparr>"
  let ?two = "[(''choices'',
             JList [JObj [(''message'', JObj [(''content'', JStr ''first'')])],
                    JObj [(''message'', JObj [(''content'', JStr ''second'')])]])]"
  have a: "map_of ?two ''choices'' =
             Some (JList (JObj [(''message'', JObj [(''content'', JStr ''first'')])] #
                          [JObj [(''message'', JObj [(''content'', JStr ''second'')])]]))"
    by simp
  from first_choice_is_the_turn [of ?two] a
  have first: "assistant_message (JObj ?two) = Inr (JObj [(''content'', JStr ''first'')])"
    by simp
  have h1: "map_of [(''id'', JStr ''chatcmpl-1'')] ''choices'' = None" by simp
  have h2: "tool_call_count ?s < 5" by simp
  have h3: "call_litellm ?env default_agent (world ?s) (messages ?s) ''gpt-3.5-turbo''
              (if ([]::json list) \<noteq> [] then Some [] else None) =
            (Inr (JObj [(''id'', JStr ''chatcmpl-1'')]), 1)"
    by (simp add: call_litellm_def scripted_env_def Let_def)
  have p: "process_request ?env default_agent 0 ''Hi'' ''gpt-3.5-turbo'' 5 =
           conversation_loop ?env default_agent ''gpt-3.5-turbo'' [] 5 ?s"
    by (rule process_request_no_tools) (simp add: scripted_env_def)
  from first_choice_is_the_turn
         [of "[(''id'', JStr ''chatcmpl-1'')]" ?s 5 ?env default_agent "''gpt-3.5-turbo''" "[]" 1]
       h1 h2 h3
  have "conversation_loop ?env default_agent ''gpt-3.5-turbo'' [] 5 ?s =
     (JObj [(''success'', JBool True),
            (''response'', JStr []),
            (''tool_calls_made'', JInt 0),
            (''total_tokens'', JInt 0)],
      \<lparr>messages = [JObj [(''role'', JStr ''user''), (''content'', JStr ''Hi'')], JObj []],
        tool_call_count = 0, world = 1,
        events = [ModelCalled 0 [JObj [(''role'', JStr ''user''), (''content'', JStr ''Hi'')]]]\<rparr>)"
    by simp
  with first h1 h3 p show ?thesis by simp
qed

section \<open>The tool-call counter and the budget\<close>

text \<open>
  Claim C1, amended. For every run of \<^verbatim>\<open>process_request\<close> with a budget
  \<open>max_tool_calls \<ge> 0\<close>: the dictionary returned reports the loop's counter; the counter
  is 0 at the first call of the model; the counter values at the successive tool
  invocations are 1, 2, ..., n, one more at each invocation; the counter never
  decreases along the run and stays at or below its final value, which never exceeds
  \<open>max_tool_calls\<close>, whatever the outcome; in the success and exhausted outcomes the
  reported count is the number n of tool invocations; and the run ends in the exhausted
  outcome exactly when discovery succeeded and the number of tool invocations equals
  \<open>max_tool_calls\<close>, in which case, for a positive budget, the last thing the run did was
  to invoke the tool that the latest model turn requested.
\<close>

theorem tool_call_counter_bounded:
  assumes "0 \<le> max_tool_calls"
      and "process_request env self w request model max_tool_calls = (r, s')"
  shows "py_get r ''tool_calls_made'' JNull = Inr (JInt (tool_call_count s')) \<and>
         (events s' \<noteq> [] \<longrightarrow>
            hd (events s') = ModelCalled 0 [JObj [(''role'', JStr ''user''), (''content'', JStr request)]]) \<and>
         tool_call_counters (events s') = [1..int (length (tool_call_counters (events s')))] \<and>
         sorted (map event_counter (events s')) \<and>
         (\<forall>e \<in> set (events s'). event_counter e \<le> tool_call_count s') \<and>
         tool_call_count s' \<le> max_tool_calls \<and>
         (outcome_of r \<noteq> Some Failed \<longrightarrow>
            tool_call_count s' = int (length (tool_call_counters (events s')))) \<and>
         ((outcome_of r = Some Exhausted) =
            ((\<exists>mcp_tools w0. fetch_mcp_tools env self w = (Inr mcp_tools, w0)) \<and>
             int (length (tool_call_counters (events s'))) = max_tool_calls)) \<and>
         (outcome_of r = Some Exhausted \<and> 0 < max_tool_calls \<longrightarrow>
            (\<exists>c function_name function_args.
               events s' \<noteq> [] \<and> last (events s') = ToolCalled c function_name function_args))"
proof (cases "fetch_mcp_tools env self w")
  case (Pair x w0)
  show ?thesis
  proof (cases x)
    case (Inl e)
    with Pair have "fetch_mcp_tools env self w = (Inl e, w0)" by simp
    from process_request_not_fetched [OF this] assms(2)
    have "r = failure_dict e 0"
      and "s' = \<lparr>messages = [], tool_call_count = 0, world = w0, events = []\<rparr>"
      by simp_all
    with assms(1) Pair Inl show ?thesis by simp
  next
    case (Inr mcp_tools)
    with Pair have fetched: "fetch_mcp_tools env self w = (Inr mcp_tools, w0)" by simp
    let ?s0 = "\<lparr>messages = [JObj [(''role'', JStr ''user''), (''content'', JStr request)]],
      tool_call_count = 0, world = w0, events = []\<rparr>"
    let ?n = "int (length (tool_call_counters (events s')))"
    from assms(2) process_request_fetched [OF fetched]
    have run: "conversation_loop env self model (convert_mcp_tools_to_litellm mcp_tools)
                 max_tool_calls ?s0 = (r, s')" by simp
    from loop_outcome [OF run] assms(1)
    have mono: "0 \<le> tool_call_count s'" and bound: "tool_call_count s' \<le> max_tool_calls"
      and kinds: "ends_failed max_tool_calls r s' \<or> ends_success max_tool_calls r s' \<or>
                  ends_exhausted max_tool_calls r s'"
      and last_tool: "0 < max_tool_calls \<longrightarrow> ends_exhausted max_tool_calls r s' \<longrightarrow>
                  (\<exists>c n a. events s' \<noteq> [] \<and> last (events s') = ToolCalled c n a)"
      by simp_all
    from loop_trace [OF run]
    have sorted: "sorted (map event_counter (events s'))"
      and below: "\<forall>e \<in> set (events s'). event_counter e \<le> tool_call_count s'"
      and first: "events s' \<noteq> [] \<longrightarrow>
            hd (events s') = ModelCalled 0 [JObj [(''role'', JStr ''user''), (''content'', JStr request)]]"
      by auto
    from kinds
    have facts: "py_get r ''tool_calls_made'' JNull = Inr (JInt (tool_call_count s')) \<and>
         tool_call_counters (events s') = [1..?n] \<and>
         (outcome_of r \<noteq> Some Failed \<longrightarrow> tool_call_count s' = ?n) \<and>
         ((outcome_of r = Some Exhausted) = (?n = max_tool_calls)) \<and>
         (outcome_of r = Some Exhausted \<longrightarrow> ends_exhausted max_tool_calls r s')"
    proof (elim disjE)
      assume f: "ends_failed max_tool_calls r s'"
      then obtain e n where "r = failure_dict e (tool_call_count s')"
        "tool_call_counters (events s') = [1..n]" "0 \<le> n" "n < max_tool_calls"
        by (auto simp: ends_failed_def)
      then show ?thesis using counters_upto_length [of n "tool_call_counters (events s')"]
        by auto
    next
      assume "ends_success max_tool_calls r s'"
      then obtain resp tok where "r = success_dict resp (tool_call_count s') tok"
        "tool_call_counters (events s') = [1..tool_call_count s']"
        "tool_call_count s' < max_tool_calls"
        by (auto simp: ends_success_def)
      then show ?thesis
        using mono counters_upto_length [of "tool_call_count s'" "tool_call_counters (events s')"]
        by auto
    next
      assume x: "ends_exhausted max_tool_calls r s'"
      then obtain p where "r = exhausted_dict max_tool_calls (tool_call_count s') p"
        "tool_call_counters (events s') = [1..tool_call_count s']"
        "max_tool_calls \<le> tool_call_count s'"
        by (auto simp: ends_exhausted_def)
      then show ?thesis
        using x mono bound
          counters_upto_length [of "tool_call_count s'" "tool_call_counters (events s')"]
        by auto
    qed
    from facts last_tool
    have "outcome_of r = Some Exhausted \<and> 0 < max_tool_calls \<longrightarrow>
            (\<exists>c function_name function_args.
               events s' \<noteq> [] \<and> last (events s') = ToolCalled c function_name function_args)"
      by blast
    with facts sorted below first bound fetched show ?thesis by simp
  qed
qed

theorem tool_call_counter_bounded_witness:
  "(0::int) \<le> 2 \<and>
   outcome_of (fst (process_request
     (scripted_env (Inr []) (replicate 5 (function_call_reply ''weather'' ''{}'')) sunny)
     default_agent 0 ''Weather?'' ''gpt-3.5-turbo'' 2)) = Some Exhausted \<and>
   py_get (fst (process_request
     (scripted_env (Inr []) (replicate 5 (function_call_reply ''weather'' ''{}'')) sunny)
     default_agent 0 ''Weather?'' ''gpt-3.5-turbo'' 2)) ''tool_calls_made'' JNull = Inr (JInt 2) \<and>
   tool_call_counters (events (snd (process_request
     (scripted_env (Inr []) (replicate 5 (function_call_reply ''weather'' ''{}'')) sunny)
     default_agent 0 ''Weather?'' ''gpt-3.5-turbo'' 2))) = [1, 2] \<and>
   (\<exists>c function_name function_args.
      last (events (snd (process_request
        (scripted_env (Inr []) (replicate 5 (function_call_reply ''weather'' ''{}'')) sunny)
        default_agent 0 ''Weather?'' ''gpt-3.5-turbo'' 2))) = ToolCalled c function_name function_args)"
proof -
  let ?env = "scripted_env (Inr []) (replicate 5 (function_call_reply ''weather'' ''{}'')) sunny"
  let ?run = "process_request ?env default_agent 0 ''Weather?'' ''gpt-3.5-turbo'' 2"
  have h0: "(0::int) \<le> 2" by simp
  have h1: "?run = (fst ?run, snd ?run)" by simp
  have ex: "outcome_of (fst ?run) = Some Exhausted" by code_simp
  have u: "[1..2] = [1, 2::int]" by code_simp
  from tool_call_counter_bounded [OF h0 h1] ex
  have "py_get (fst ?run) ''tool_calls_made'' JNull = Inr (JInt (tool_call_count (snd ?run)))"
    and "tool_call_counters (events (snd ?run)) =
           [1..int (length (tool_call_counters (events (snd ?run))))]"
    and "tool_call_count (snd ?run) = int (length (tool_call_counters (events (snd ?run))))"
    and "int (length (tool_call_counters (events (snd ?run)))) = 2"
    and "\<exists>c function_name function_args.
           last (events (snd ?run)) = ToolCalled c function_name function_args"
    by auto
  with ex u show ?thesis by simp
qed

text \<open>
  Claim C1 as stated fails in three places. With the budget -1 the loop is not
  entered and the run reports 0 calls, more than the budget. With the budget 0 the
  run is exhausted at once, the counter equal to the budget, after no model turn at
  all. With the budget 1 and a turn whose \<^verbatim>\<open>function_call\<close> is the string
  \<^verbatim>\<open>weather\<close> (truthy, so the turn counts as a function-call request), the counter is
  incremented to 1, the budget, before the request is read; reading it raises, no
  tool is invoked, and the run ends failed, not exhausted.
\<close>

theorem tool_call_counter_counterexample:
  "py_get (fst (process_request (scripted_env (Inr []) [] sunny)
                  default_agent 0 ''Hi'' ''gpt-3.5-turbo'' (- 1))) ''tool_calls_made'' JNull =
     Inr (JInt 0) \<and>
   \<not> (0::int) \<le> - 1 \<and>
   process_request (scripted_env (Inr []) [] sunny) default_agent 0 ''Hi'' ''gpt-3.5-turbo'' 0 =
     (JObj [(''success'', JBool False),
            (''error'', JStr ''Maximum tool calls (0) reached''),
            (''tool_calls_made'', JInt 0),
            (''partial_response'', JStr ''Hi'')],
      \<lparr>messages = [JObj [(''role'', JStr ''user''), (''content'', JStr ''Hi'')]],
        tool_call_count = 0, world = 0, events = []\<rparr>) \<and>
   is_function_call_request (JObj [(''function_call'', JStr ''weather'')]) \<and>
   process_request
     (scripted_env (Inr [])
        [JObj [(''choices'', JList [JObj [(''message'',
                  JObj [(''function_call'', JStr ''weather'')])]])]] sunny)
     default_agent 0 ''Hi'' ''gpt-3.5-turbo'' 1 =
     (JObj [(''success'', JBool False),
            (''error'', JStr ([CHR 0x27] @ ''str'' @ [CHR 0x27] @ '' object has no attribute '' @
                             [CHR 0x27] @ ''get'' @ [CHR 0x27])),
            (''tool_calls_made'', JInt 1)],
      \<lparr>messages = [JObj [(''role'', JStr ''user''), (''content'', JStr ''Hi'')],
                    JObj [(''function_call'', JStr ''weather'')]],
        tool_call_count = 1, world = 1,
        events = [ModelCalled 0 [JObj [(''role'', JStr ''user''), (''content'', JStr ''Hi'')]]]\<rparr>)"
  by code_simp

text \<open>
  Claim C2. For every run in which discovery succeeded and the number of tool
  invocations reaches \<open>max_tool_calls\<close> (so the model never gave a final answer),
  \<^verbatim>\<open>process_request\<close> returns the failure dictionary whose error is exactly
  \<^verbatim>\<open>Maximum tool calls (N) reached\<close> for the configured N, whose \<^verbatim>\<open>tool_calls_made\<close>
  is \<open>max_tool_calls\<close>, and whose partial response is the content of the most recent
  message of the conversation.
\<close>

theorem budget_exhausted_outcome:
  assumes "process_request env self w request model max_tool_calls = (r, s')"
      and "fetch_mcp_tools env self w = (Inr mcp_tools, w0)"
      and "int (length (tool_call_counters (events s'))) = max_tool_calls"
  shows "\<exists>partial_response.
           r = JObj [(''success'', JBool False),
                     (''error'', JStr (''Maximum tool calls ('' @ str_int max_tool_calls @ '') reached'')),
                     (''tool_calls_made'', JInt max_tool_calls),
                     (''partial_response'', partial_response)] \<and>
           tool_call_count s' = max_tool_calls \<and>
           messages s' \<noteq> [] \<and>
           py_get (last (messages s')) ''content'' (JStr []) = Inr partial_response"
proof -
  let ?s0 = "\<lparr>messages = [JObj [(''role'', JStr ''user''), (''content'', JStr request)]],
      tool_call_count = 0, world = w0, events = []\<rparr>"
  from assms(1) process_request_fetched [OF assms(2)]
  have run: "conversation_loop env self model (convert_mcp_tools_to_litellm mcp_tools)
               max_tool_calls ?s0 = (r, s')" by simp
  from assms(3) have nonneg: "0 \<le> max_tool_calls" by linarith
  from loop_outcome [OF run] nonneg
  have mono: "0 \<le> tool_call_count s'" and bound: "tool_call_count s' \<le> max_tool_calls"
    and kinds: "ends_failed max_tool_calls r s' \<or> ends_success max_tool_calls r s' \<or>
                ends_exhausted max_tool_calls r s'"
    by simp_all
  have nf: "\<not> ends_failed max_tool_calls r s'"
  proof
    assume "ends_failed max_tool_calls r s'"
    then obtain n where "tool_call_counters (events s') = [1..n]" "0 \<le> n" "n < max_tool_calls"
      by (auto simp: ends_failed_def)
    with assms(3) show False by simp
  qed
  have ns: "\<not> ends_success max_tool_calls r s'"
  proof
    assume "ends_success max_tool_calls r s'"
    then have "tool_call_counters (events s') = [1..tool_call_count s']"
      "tool_call_count s' < max_tool_calls"
      by (auto simp: ends_success_def)
    with assms(3) mono show False by simp
  qed
  from kinds nf ns have "ends_exhausted max_tool_calls r s'" by blast
  then obtain p where "r = exhausted_dict max_tool_calls (tool_call_count s') p"
    "max_tool_calls \<le> tool_call_count s'" "messages s' \<noteq> []"
    "py_get (last (messages s')) ''content'' (JStr []) = Inr p"
    by (auto simp: ends_exhausted_def)
  with bound show ?thesis by (auto simp: exhausted_dict_def)
qed

theorem budget_exhausted_outcome_witness:
  "fetch_mcp_tools
     (scripted_env (Inr []) (replicate 5 (function_call_reply ''weather'' ''{}'')) sunny)
     default_agent 0 = (Inr [], 0) \<and>
   int (length (tool_call_counters (events (snd
     (process_request
        (scripted_env (Inr []) (replicate 5 (function_call_reply ''weather'' ''{}'')) sunny)
        default_agent 0 ''Weather?'' ''gpt-3.5-turbo'' 5))))) = 5 \<and>
   fst (process_request
          (scripted_env (Inr []) (replicate 5 (function_call_reply ''weather'' ''{}'')) sunny)
          default_agent 0 ''Weather?'' ''gpt-3.5-turbo'' 5) =
     JObj [(''success'', JBool False),
           (''error'', JStr ''Maximum tool calls (5) reached''),
           (''tool_calls_made'', JInt 5),
           (''partial_response'',
              JStr ([CHR ''{'', CHR 0x22] @ ''result'' @ [CHR 0x22, CHR '':'', CHR '' '', CHR 0x22] @
                    ''Sunny, 65F'' @ [CHR 0x22, CHR ''}'']))]"
proof -
  let ?env = "scripted_env (Inr []) (replicate 5 (function_call_reply ''weather'' ''{}'')) sunny"
  let ?run = "process_request ?env default_agent 0 ''Weather?'' ''gpt-3.5-turbo'' 5"
  have h1: "?run = (fst ?run, snd ?run)" by simp
  have h2: "fetch_mcp_tools ?env default_agent 0 = (Inr [], 0)"
    by (simp add: fetch_mcp_tools_def scripted_env_def)
  have h3: "int (length (tool_call_counters (events (snd ?run)))) = 5"
    by code_simp
  have l: "py_get (last (messages (snd ?run))) ''content'' (JStr []) =
           Inr (JStr ([CHR ''{'', CHR 0x22] @ ''result'' @ [CHR 0x22, CHR '':'', CHR '' '', CHR 0x22] @
                    ''Sunny, 65F'' @ [CHR 0x22, CHR ''}'']))"
    by code_simp
  have d: "str_int 5 = ''5''" by code_simp
  from budget_exhausted_outcome [OF h1 h2 h3] l d h2 h3 show ?thesis by auto
qed

section \<open>Requests and their results in the conversation\<close>

text \<open>
  Claim C3. Whenever the model client is called in a run, the conversation it is
  given is the user's message followed by function-call requests, each immediately
  followed by exactly one function-result message that carries the name the request
  asked for; so it contains no unanswered function-call request. And a pass through
  the loop body that reaches its end appended exactly two messages: the assistant's
  turn, a function-call request, and then the function-result message with role
  \<^verbatim>\<open>function\<close>, the requested name and, as content, the string encoding of what the
  tool invocation of this pass returned; the model call of the pass came before the
  tool invocation, and no other call was made.
\<close>

theorem no_unanswered_request_at_model_call:
  "(\<forall>c msgs.
      ModelCalled c msgs \<in> set (events (snd (process_request env self w request model max_tool_calls))) \<longrightarrow>
      (\<exists>tail. msgs = JObj [(''role'', JStr ''user''), (''content'', JStr request)] # tail \<and>
              exchanges tail) \<and>
      no_unanswered_request msgs) \<and>
   (\<forall>s s'. loop_body env self model fns s = Continue s' \<longrightarrow>
      (\<exists>message function_call function_name function_args w1.
         is_function_call_request message \<and>
         py_get message ''function_call'' JNull = Inr function_call \<and>
         py_get function_call ''name'' JNull = Inr function_name \<and>
         messages s' = messages s @
           [message,
            JObj [(''role'', JStr ''function''),
                  (''name'', function_name),
                  (''content'',
                     JStr (json_dumps env
                             (fst (execute_mcp_tool env self w1 function_name function_args))))]] \<and>
         events s' = events s @
           [ModelCalled (tool_call_count s) (messages s),
            ToolCalled (tool_call_count s + 1) function_name function_args]))"
proof -
  have A: "(\<forall>c msgs.
      ModelCalled c msgs \<in> set (events (snd (process_request env self w request model max_tool_calls))) \<longrightarrow>
      (\<exists>tail. msgs = JObj [(''role'', JStr ''user''), (''content'', JStr request)] # tail \<and>
              exchanges tail) \<and>
      no_unanswered_request msgs)"
  proof (intro allI impI)
  fix c msgs
  let ?u = "JObj [(''role'', JStr ''user''), (''content'', JStr request)]"
  assume mem: "ModelCalled c msgs \<in>
     set (events (snd (process_request env self w request model max_tool_calls)))"
  have "\<exists>tail. msgs = ?u # tail \<and> exchanges tail"
  proof (cases "fetch_mcp_tools env self w")
    case (Pair x w0)
    show ?thesis
    proof (cases x)
      case (Inl e)
      with Pair have "fetch_mcp_tools env self w = (Inl e, w0)" by simp
      from process_request_not_fetched [OF this] mem show ?thesis by simp
    next
      case (Inr mcp_tools)
      with Pair have "fetch_mcp_tools env self w = (Inr mcp_tools, w0)" by simp
      from process_request_fetched [OF this]
      have run: "conversation_loop env self model (convert_mcp_tools_to_litellm mcp_tools)
                   max_tool_calls
                   \<lparr>messages = [?u], tool_call_count = 0, world = w0, events = []\<rparr> =
                 (fst (process_request env self w request model max_tool_calls),
                  snd (process_request env self w request model max_tool_calls))"
        by simp
      from loop_conversation [OF run, of ?u] mem show ?thesis by simp
    qed
  qed
  then obtain tail where t: "msgs = ?u # tail" "exchanges tail" by blast
  have "\<not> is_function_call_request ?u" by (simp add: is_function_call_request_def)
  from no_unanswered_Cons [OF this exchanges_no_unanswered [OF t(2)]] t
  show "(\<exists>tail. msgs = ?u # tail \<and> exchanges tail) \<and> no_unanswered_request msgs"
    by blast
  qed
  have B: "(\<forall>s s'. loop_body env self model fns s = Continue s' \<longrightarrow>
      (\<exists>message function_call function_name function_args w1.
         is_function_call_request message \<and>
         py_get message ''function_call'' JNull = Inr function_call \<and>
         py_get function_call ''name'' JNull = Inr function_name \<and>
         messages s' = messages s @
           [message,
            JObj [(''role'', JStr ''function''),
                  (''name'', function_name),
                  (''content'',
                     JStr (json_dumps env
                             (fst (execute_mcp_tool env self w1 function_name function_args))))]] \<and>
         events s' = events s @
           [ModelCalled (tool_call_count s) (messages s),
            ToolCalled (tool_call_count s + 1) function_name function_args]))"
  proof (intro allI impI)
  fix s s' :: "'a loop_state"
  assume "loop_body env self model fns s = Continue s'"
  from loop_body_Continue [OF this] obtain w1 message function_call function_name function_args
    where fc: "py_get message ''function_call'' JNull = Inr function_call" "truthy function_call"
      "py_get function_call ''name'' JNull = Inr function_name"
    and s': "s' = \<lparr>messages = messages s @
                [message,
                 function_message function_name
                   (json_dumps env (fst (execute_mcp_tool env self w1 function_name function_args)))],
            tool_call_count = tool_call_count s + 1,
            world = snd (execute_mcp_tool env self w1 function_name function_args),
            events = events s @
                [ModelCalled (tool_call_count s) (messages s),
                 ToolCalled (tool_call_count s + 1) function_name function_args]\<rparr>"
    by blast
  from fc have "is_function_call_request message"
    by (simp add: is_function_call_request_def)
  moreover have "messages s' = messages s @
           [message,
            JObj [(''role'', JStr ''function''),
                  (''name'', function_name),
                  (''content'',
                     JStr (json_dumps env
                             (fst (execute_mcp_tool env self w1 function_name function_args))))]]"
    by (subst s') (simp add: function_message_def)
  moreover have "events s' = events s @
           [ModelCalled (tool_call_count s) (messages s),
            ToolCalled (tool_call_count s + 1) function_name function_args]"
    by (subst s') simp
  ultimately show "\<exists>message function_call function_name function_args w1.
         is_function_call_request message \<and>
         py_get message ''function_call'' JNull = Inr function_call \<and>
         py_get function_call ''name'' JNull = Inr function_name \<and>
         messages s' = messages s @
           [message,
            JObj [(''role'', JStr ''function''),
                  (''name'', function_name),
                  (''content'',
                     JStr (json_dumps env
                             (fst (execute_mcp_tool env self w1 function_name function_args))))]] \<and>
         events s' = events s @
           [ModelCalled (tool_call_count s) (messages s),
            ToolCalled (tool_call_count s + 1) function_name function_args]"
    using fc(1,3) by blast
qed
  from A B show ?thesis ..
qed

theorem no_unanswered_request_at_model_call_witness:
  "ModelCalled 1
     [JObj [(''role'', JStr ''user''), (''content'', JStr ''Weather in SF?'')],
      JObj [(''role'', JStr ''assistant''), (''content'', JNull),
            (''function_call'', JObj [(''name'', JStr ''weather''), (''arguments'', JStr ''{}'')])],
      JObj [(''role'', JStr ''function''), (''name'', JStr ''weather''),
            (''content'',
               JStr ([CHR ''{'', CHR 0x22] @ ''result'' @ [CHR 0x22, CHR '':'', CHR '' '', CHR 0x22] @
                     ''Sunny, 65F'' @ [CHR 0x22, CHR ''}'']))]]
   \<in> set (events (snd (process_request
         (scripted_env (Inr [])
            [function_call_reply ''weather'' ''{}'', final_answer_reply ''It is sunny in SF.''] sunny)
         default_agent 0 ''Weather in SF?'' ''gpt-3.5-turbo'' 5))) \<and>
   exchanges
     [JObj [(''role'', JStr ''assistant''), (''content'', JNull),
            (''function_call'', JObj [(''name'', JStr ''weather''), (''arguments'', JStr ''{}'')])],
      JObj [(''role'', JStr ''function''), (''name'', JStr ''weather''),
            (''content'',
               JStr ([CHR ''{'', CHR 0x22] @ ''result'' @ [CHR 0x22, CHR '':'', CHR '' '', CHR 0x22] @
                     ''Sunny, 65F'' @ [CHR 0x22, CHR ''}'']))]] \<and>
   no_unanswered_request
     [JObj [(''role'', JStr ''user''), (''content'', JStr ''Weather in SF?'')],
      JObj [(''role'', JStr ''assistant''), (''content'', JNull),
            (''function_call'', JObj [(''name'', JStr ''weather''), (''arguments'', JStr ''{}'')])],
      JObj [(''role'', JStr ''function''), (''name'', JStr ''weather''),
            (''content'',
               JStr ([CHR ''{'', CHR 0x22] @ ''result'' @ [CHR 0x22, CHR '':'', CHR '' '', CHR 0x22] @
                     ''Sunny, 65F'' @ [CHR 0x22, CHR ''}'']))]]"
proof -
  let ?env = "scripted_env (Inr [])
            [function_call_reply ''weather'' ''{}'', final_answer_reply ''It is sunny in SF.''] sunny"
  let ?u = "JObj [(''role'', JStr ''user''), (''content'', JStr ''Weather in SF?'')]"
  let ?req = "JObj [(''role'', JStr ''assistant''), (''content'', JNull),
            (''function_call'', JObj [(''name'', JStr ''weather''), (''arguments'', JStr ''{}'')])]"
  let ?res = "JObj [(''role'', JStr ''function''), (''name'', JStr ''weather''),
            (''content'',
               JStr ([CHR ''{'', CHR 0x22] @ ''result'' @ [CHR 0x22, CHR '':'', CHR '' '', CHR 0x22] @
                     ''Sunny, 65F'' @ [CHR 0x22, CHR ''}'']))]"
  have mem: "ModelCalled 1 [?u, ?req, ?res] \<in> set (events (snd (process_request ?env
         default_agent 0 ''Weather in SF?'' ''gpt-3.5-turbo'' 5)))"
    by code_simp
  from no_unanswered_request_at_model_call
         [of ?env default_agent 0 "''Weather in SF?''" "''gpt-3.5-turbo''" 5 "[]"] mem
  have "(\<exists>tail. [?u, ?req, ?res] = ?u # tail \<and> exchanges tail) \<and>
        no_unanswered_request [?u, ?req, ?res]"
    by blast
  then obtain tail where t: "[?u, ?req, ?res] = ?u # tail" and e: "exchanges tail"
    and n: "no_unanswered_request [?u, ?req, ?res]"
    by blast
  from t have tl: "tail = [?req, ?res]" by blast
  have ex: "exchanges [?req, ?res]" using e unfolding tl .
  from mem ex n show ?thesis by blast
qed

end
